theory Spec2Isabelle
  imports Complex_Main "HOL-Library.Word" "HOL-Library.Log_Nat"
begin

unbundle bit_operations_syntax

section \<open>Data model of the render-port network\<close>

text \<open>
  Ports live in a store and are addressed by their index; a pointer to a port is such an
  index. \<open>void* sizeOrigin_\<close> is an address, with 0 the null pointer. A \<open>tgt::ivec2\<close>
  is a pair of integers.
\<close>

type_synonym ivec2 = "int \<times> int"
type_synonym origin = nat

text \<open>
  Modelled from the spec: class RenderTarget (sections 3 and 4.1) is not among the
  sources. It has pixel dimensions, the two internal formats, an active flag, an update
  counter and the label given on activation.
\<close>

record render_target =
  rt_size :: ivec2
  rt_colorFormat :: int
  rt_depthFormat :: int
  rt_active :: bool
  rt_numUpdates :: nat
  rt_debugLabel :: string

text \<open>
  A port of the network. \<open>isRenderPort\<close> says whether \<open>dynamic_cast<RenderPort*>\<close>
  succeeds; the fields from \<open>renderTarget\<close> on are those of class RenderPort. The render
  target a port owns is kept inside the port (\<open>None\<close> is the null pointer).
\<close>

record port =
  portName :: string
  isOutport :: bool
  isRenderPort :: bool
  processor :: nat
  allowMultiple :: bool
  connectedPorts :: "nat list"
  renderTarget :: "render_target option"
  validResult :: bool
  portSize :: ivec2
  sizeOrigin :: origin
  internalColorFormat :: int
  internalDepthFormat :: int
  renderTargetSharing :: bool

text \<open>
  What a call leaves behind outside the ports: messages of the logging channel, the
  callbacks into the owning RenderProcessor (class RenderProcessor is not among the
  sources, its three callbacks are recorded, not executed), \<open>Port::invalidate()\<close> of the
  base class, and the OpenGL calls.
\<close>

datatype event =
    LError string
  | LWarning string
  | ProcSizeOriginChanged nat nat
  | ProcPortResized nat nat ivec2
  | PortInvalidate nat
  | GlClear
  | FboActivate
  | GlDrawBuffers nat "nat list"
  | GlViewport int int int int

text \<open>
  The network: the port store, the names of the processors (\<open>Processor::getName()\<close>),
  the events so far, and two counters that instrument \<open>sizeOriginChanged\<close>: the number
  of times it was entered and the ports that executed \<open>sizeOrigin_ = so\<close>, in order.
\<close>

record network =
  ports :: "port list"
  procNames :: "string list"
  events :: "event list"
  socCalls :: nat
  socAdopted :: "nat list"

definition emit :: "event \<Rightarrow> network \<Rightarrow> network" where
  "emit e st = st\<lparr>events := events st @ [e]\<rparr>"

text \<open>The log messages among the events.\<close>

fun isLogMessage :: "event \<Rightarrow> bool" where
  "isLogMessage (LError m) = True"
| "isLogMessage (LWarning m) = True"
| "isLogMessage e = False"

definition setPort :: "nat \<Rightarrow> port \<Rightarrow> network \<Rightarrow> network" where
  "setPort p P st = st\<lparr>ports := (ports st)[p := P]\<rparr>"

definition procName :: "network \<Rightarrow> port \<Rightarrow> string" where
  "procName st P = procNames st ! processor P"

text \<open>
  Modelled from the spec: the accessors \<open>isConnected()\<close> and \<open>isInport()\<close> of the base
  class Port, which is not among the sources. A port is connected when its connection
  list (section 3) is not empty; an inport is a port that is not an outport.
\<close>

definition isConnected :: "port \<Rightarrow> bool" where
  "isConnected P = (connectedPorts P \<noteq> [])"

definition isInport :: "port \<Rightarrow> bool" where
  "isInport P = (\<not> isOutport P)"

section \<open>RenderTarget operations\<close>

text \<open>
  Modelled from the spec: the methods of RenderTarget (section 4.1). \<open>resize\<close> gives the
  surface the new size, \<open>activateTarget\<close> binds it and tags it with the label,
  \<open>deactivateTarget\<close> unbinds it, \<open>increaseNumUpdates\<close> bumps the update counter, and a
  new target is initialized with its two formats.
\<close>

definition rt_resize :: "ivec2 \<Rightarrow> render_target \<Rightarrow> render_target" where
  "rt_resize newsize rt = (if rt_size rt = newsize then rt else rt\<lparr>rt_size := newsize\<rparr>)"

definition rt_activateTarget :: "string \<Rightarrow> render_target \<Rightarrow> render_target" where
  "rt_activateTarget label rt = rt\<lparr>rt_active := True, rt_debugLabel := label\<rparr>"

definition rt_deactivateTarget :: "render_target \<Rightarrow> render_target" where
  "rt_deactivateTarget rt = rt\<lparr>rt_active := False\<rparr>"

definition rt_increaseNumUpdates :: "render_target \<Rightarrow> render_target" where
  "rt_increaseNumUpdates rt = rt\<lparr>rt_numUpdates := Suc (rt_numUpdates rt)\<rparr>"

definition rt_setDebugLabel :: "string \<Rightarrow> render_target \<Rightarrow> render_target" where
  "rt_setDebugLabel label rt = rt\<lparr>rt_debugLabel := label\<rparr>"

definition rt_new :: "int \<Rightarrow> int \<Rightarrow> render_target" where
  "rt_new colorFormat depthFormat =
     \<lparr>rt_size = (0, 0), rt_colorFormat = colorFormat, rt_depthFormat = depthFormat,
      rt_active = False, rt_numUpdates = 0, rt_debugLabel = []\<rparr>"

section \<open>RenderPort: construction and initialization\<close>

text \<open>
  The constructor \<open>RenderPort::RenderPort\<close>; the direction is \<open>True\<close> for an outport.
  The port is attached to a processor afterwards.
\<close>

definition RenderPort :: "bool \<Rightarrow> string \<Rightarrow> bool \<Rightarrow> int \<Rightarrow> int \<Rightarrow> port" where
  "RenderPort direction name allowMultipleConnections colorFormat depthFormat =
     \<lparr>portName = name, isOutport = direction, isRenderPort = True, processor = 0,
      allowMultiple = allowMultipleConnections, connectedPorts = [],
      renderTarget = None, validResult = False, portSize = (128, 128), sizeOrigin = 0,
      internalColorFormat = colorFormat, internalDepthFormat = depthFormat,
      renderTargetSharing = False\<rparr>"

text \<open>\<open>RenderPort::initialize\<close> and \<open>RenderPort::deinitialize\<close>.\<close>

definition initialize :: "nat \<Rightarrow> network \<Rightarrow> network" where
  "initialize p st =
     (let P = ports st ! p in
      if \<not> isOutport P then st
      else if renderTargetSharing P then st
      else setPort p
             (P\<lparr>renderTarget :=
                  Some (rt_resize (portSize P)
                         (rt_setDebugLabel (procName st P @ ''::'' @ portName P)
                            (rt_new (internalColorFormat P) (internalDepthFormat P)))),
                validResult := False\<rparr>) st)"

definition deinitialize :: "nat \<Rightarrow> network \<Rightarrow> network" where
  "deinitialize p st =
     (let P = ports st ! p in
      if isOutport P \<and> renderTarget P \<noteq> None then setPort p (P\<lparr>renderTarget := None\<rparr>) st
      else st)"

section \<open>RenderPort: result flag and target activation\<close>

text \<open>\<open>RenderPort::validateResult\<close>.\<close>

definition validateResult :: "nat \<Rightarrow> network \<Rightarrow> network" where
  "validateResult p st =
     (let P = ports st ! p in
      if isOutport P then
        (case renderTarget P of
           Some rt \<Rightarrow>
             setPort p (P\<lparr>validResult := True,
                          renderTarget := Some (rt_increaseNumUpdates rt)\<rparr>) st
         | None \<Rightarrow> emit (LError ''validateResult(): no RenderTarget'') st)
      else emit (LError ''validateResult() called on inport'') st)"

text \<open>\<open>RenderPort::invalidateResult\<close>.\<close>

definition invalidateResult :: "nat \<Rightarrow> network \<Rightarrow> network" where
  "invalidateResult p st =
     (let P = ports st ! p in
      if isOutport P then setPort p (P\<lparr>validResult := False\<rparr>) st
      else emit (LError ''invalidateResult() called on inport'') st)"

text \<open>\<open>RenderPort::activateTarget\<close>.\<close>

definition activateTarget :: "nat \<Rightarrow> string \<Rightarrow> network \<Rightarrow> network" where
  "activateTarget p debugLabel st =
     (let P = ports st ! p in
      if isOutport P then
        (case renderTarget P of
           Some rt \<Rightarrow>
             validateResult p
               (setPort p
                  (P\<lparr>renderTarget := Some (rt_activateTarget
                        (procName st P @ '':'' @ portName P
                           @ (if debugLabel = [] then [] else '': '' @ debugLabel)) rt)\<rparr>) st)
         | None \<Rightarrow>
             emit (LError (''Trying to activate RenderPort without RenderTarget (''
                           @ procName st P @ '':'' @ portName P @ '')'')) st)
      else
        emit (LError (''activateTarget() called on inport (''
                      @ procName st P @ '':'' @ portName P @ '')'')) st)"

text \<open>\<open>RenderPort::deactivateTarget\<close>.\<close>

definition deactivateTarget :: "nat \<Rightarrow> network \<Rightarrow> network" where
  "deactivateTarget p st =
     (let P = ports st ! p in
      if isOutport P then
        (case renderTarget P of
           Some rt \<Rightarrow> setPort p (P\<lparr>renderTarget := Some (rt_deactivateTarget rt)\<rparr>) st
         | None \<Rightarrow> emit (LError ''Trying to activate RenderPort without RenderTarget'') st)
      else emit (LError ''deactivateTarget() called on inport'') st)"

text \<open>\<open>RenderPort::isActive\<close>.\<close>

definition isActive :: "port \<Rightarrow> bool" where
  "isActive P = (case renderTarget P of Some rt \<Rightarrow> rt_active rt | None \<Rightarrow> False)"

text \<open>\<open>RenderPort::clearTarget\<close>.\<close>

definition clearTarget :: "nat \<Rightarrow> network \<Rightarrow> network" where
  "clearTarget p st =
     (let P = ports st ! p in
      if \<not> isOutport P then emit (LError ''clearTarget() called on inport'') st
      else if \<not> isActive P then emit (LError ''clearTarget() called on inactive outport'') st
      else emit GlClear st)"

text \<open>
  \<open>RenderPort::hasValidResult\<close>. An inport asks its first connected port, which asks
  its own first connected port if it is an inport too: the recursion need not end on a
  malformed network, so the result is optional and \<open>None\<close> stands for no return. The
  error message of the last branch does not change the port store and is left out of
  this query.
\<close>

partial_function (option) hasValidResult :: "port list \<Rightarrow> nat \<Rightarrow> bool option" where
  "hasValidResult ps p =
     (if isOutport (ps ! p) then Some (renderTarget (ps ! p) \<noteq> None \<and> validResult (ps ! p))
      else if \<not> isConnected (ps ! p) then Some False
      else if isRenderPort (ps ! (connectedPorts (ps ! p) ! 0))
           then hasValidResult ps (connectedPorts (ps ! p) ! 0)
      else Some False)"

section \<open>RenderPort: render target lookup, size and formats\<close>

text \<open>
  \<open>RenderPort::getRenderTarget\<close>. The pointer it returns is the \<open>renderTarget_\<close>
  field of some port: of the port itself on an outport, of the first connected port
  that is an outport and a RenderPort on an inport. \<open>targetHolder\<close> is that port and
  \<open>getRenderTarget\<close> the target found there (\<open>None\<close> for a null pointer).
\<close>

fun targetHolder_loop :: "port list \<Rightarrow> nat list \<Rightarrow> nat option" where
  "targetHolder_loop ps [] = None"
| "targetHolder_loop ps (q # qs) =
     (if \<not> isOutport (ps ! q) then targetHolder_loop ps qs
      else if isRenderPort (ps ! q) then Some q
      else targetHolder_loop ps qs)"

definition targetHolder :: "port list \<Rightarrow> nat \<Rightarrow> nat option" where
  "targetHolder ps p =
     (if isOutport (ps ! p) then Some p else targetHolder_loop ps (connectedPorts (ps ! p)))"

definition getRenderTarget :: "port list \<Rightarrow> nat \<Rightarrow> render_target option" where
  "getRenderTarget ps p =
     (case targetHolder ps p of None \<Rightarrow> None | Some q \<Rightarrow> renderTarget (ps ! q))"

definition hasRenderTarget :: "port list \<Rightarrow> nat \<Rightarrow> bool" where
  "hasRenderTarget ps p = (getRenderTarget ps p \<noteq> None)"

text \<open>\<open>RenderPort::getSize\<close>.\<close>

definition getSize :: "port list \<Rightarrow> nat \<Rightarrow> ivec2" where
  "getSize ps p = (case getRenderTarget ps p of Some rt \<Rightarrow> rt_size rt | None \<Rightarrow> (0, 0))"

text \<open>\<open>RenderPort::changeFormat\<close>.\<close>

definition changeFormat :: "nat \<Rightarrow> int \<Rightarrow> int \<Rightarrow> network \<Rightarrow> network" where
  "changeFormat p colorFormat depthFormat st =
     (let P = ports st ! p in
      if \<not> isOutport P then emit (LError ''changeFormat() called on inport'') st
      else
        (let s = getSize (ports st) p;
             rt = rt_resize s (rt_new colorFormat depthFormat)
         in emit (PortInvalidate p)
              (setPort p (P\<lparr>renderTarget := Some rt,
                            internalColorFormat := colorFormat,
                            internalDepthFormat := depthFormat\<rparr>) st)))"

text \<open>\<open>RenderPort::setRenderTarget\<close>.\<close>

definition setRenderTarget :: "nat \<Rightarrow> render_target option \<Rightarrow> network \<Rightarrow> network" where
  "setRenderTarget p rt st =
     (let P = ports st ! p in
      if isOutport P then emit (PortInvalidate p) (setPort p (P\<lparr>renderTarget := rt\<rparr>) st)
      else emit (LError ''setRenderTarget() called on inport'') st)"

section \<open>RenderPort: size origin and resizing\<close>

text \<open>
  \<open>RenderPort::getSizeOrigin\<close>. An outport asks its connected ports in order, each of
  which asks its own connected ports if it is an outport too; the first argument bounds
  the depth of these calls and \<open>None\<close> says the bound was reached.
\<close>

fun getSizeOrigin_loop :: "(nat \<Rightarrow> origin option) \<Rightarrow> nat list \<Rightarrow> origin option" where
  "getSizeOrigin_loop g [] = Some 0"
| "getSizeOrigin_loop g (q # qs) =
     (case g q of
        None \<Rightarrow> None
      | Some so \<Rightarrow> if so \<noteq> 0 then g q else getSizeOrigin_loop g qs)"

primrec getSizeOrigin :: "nat \<Rightarrow> port list \<Rightarrow> nat \<Rightarrow> origin option" where
  "getSizeOrigin 0 ps p = None"
| "getSizeOrigin (Suc fuel) ps p =
     (if isOutport (ps ! p)
      then getSizeOrigin_loop (getSizeOrigin fuel ps) (connectedPorts (ps ! p))
      else Some (sizeOrigin (ps ! p)))"

text \<open>
  \<open>RenderPort::resize\<close>. On an inport \<open>getSizeOrigin()\<close> is the field \<open>sizeOrigin_\<close>.
  The vector streamed into the warning is the zero vector.
\<close>

definition resize :: "nat \<Rightarrow> ivec2 \<Rightarrow> network \<Rightarrow> network" where
  "resize p newsize st =
     (let P = ports st ! p in
      if isOutport P then
        (if portSize P = newsize then st
         else if newsize = (0, 0) then emit (LWarning ''resize(): invalid size '') st
         else setPort p (P\<lparr>renderTarget := map_option (rt_resize newsize) (renderTarget P),
                           validResult := False,
                           portSize := newsize\<rparr>) st)
      else
        (let st1 = setPort p (P\<lparr>portSize := newsize\<rparr>) st in
         if sizeOrigin P = 0 then st1
         else foldl (\<lambda>s rp. emit (ProcPortResized (processor (ports s ! rp)) rp newsize) s)
                st1 (connectedPorts P)))"

text \<open>
  \<open>RenderPort::sizeOriginChanged\<close> and its loop over \<open>connectedPorts_\<close>, which reads
  the port store of the moment at every turn. The first argument bounds the number of
  nested calls and loop turns; \<open>None\<close> says the bound was reached. \<open>soc_enter\<close>
  counts the call, \<open>soc_outport\<close> is the outport branch (the processor is notified, the
  valid flag cleared) and \<open>soc_adopt\<close> the assignment \<open>sizeOrigin_ = so\<close>.
\<close>

definition soc_enter :: "network \<Rightarrow> network" where
  "soc_enter st = st\<lparr>socCalls := Suc (socCalls st)\<rparr>"

definition soc_outport :: "nat \<Rightarrow> network \<Rightarrow> network" where
  "soc_outport p st =
     setPort p ((ports st ! p)\<lparr>validResult := False\<rparr>)
       (emit (ProcSizeOriginChanged (processor (ports st ! p)) p) st)"

definition soc_adopt :: "nat \<Rightarrow> origin \<Rightarrow> network \<Rightarrow> network" where
  "soc_adopt p so st =
     (setPort p ((ports st ! p)\<lparr>sizeOrigin := so\<rparr>) st)\<lparr>socAdopted := socAdopted st @ [p]\<rparr>"

fun sizeOriginChanged :: "nat \<Rightarrow> nat \<Rightarrow> origin \<Rightarrow> network \<Rightarrow> network option"
  and sizeOriginChanged_loop :: "nat \<Rightarrow> nat \<Rightarrow> origin \<Rightarrow> nat \<Rightarrow> network \<Rightarrow> network option"
where
  "sizeOriginChanged 0 p so st = None"
| "sizeOriginChanged (Suc fuel) p so st =
     (if isOutport (ports st ! p) then Some (soc_outport p (soc_enter st))
      else if sizeOrigin (ports st ! p) = so then Some (soc_enter st)
      else sizeOriginChanged_loop fuel p so 0 (soc_adopt p so (soc_enter st)))"
| "sizeOriginChanged_loop 0 p so i st = None"
| "sizeOriginChanged_loop (Suc fuel) p so i st =
     (if i < length (connectedPorts (ports st ! p)) then
        (case sizeOriginChanged fuel (connectedPorts (ports st ! p) ! i) so st of
           None \<Rightarrow> None
         | Some st1 \<Rightarrow>
             sizeOriginChanged_loop fuel p so (Suc i)
               (if so \<noteq> 0
                then resize (connectedPorts (ports st ! p) ! i) (portSize (ports st1 ! p)) st1
                else st1))
      else Some st)"

section \<open>Connecting and disconnecting\<close>

text \<open>
  Modelled from the spec: \<open>Port::testConnectivity\<close>, \<open>Port::connect\<close> and
  \<open>Port::disconnect\<close> of the base class Port are not among the sources. Section 4.2
  gives the base connection predicate as direction compatibility, multiplicity, and no
  self or duplicate connection; section 3 gives the connection list as an ordered
  sequence of peers, which both ends of a connection keep.
\<close>

definition Port_testConnectivity :: "port list \<Rightarrow> nat \<Rightarrow> nat \<Rightarrow> bool" where
  "Port_testConnectivity ps p q =
     (p \<noteq> q \<and> isOutport (ps ! p) \<and> isInport (ps ! q)
      \<and> q \<notin> set (connectedPorts (ps ! p))
      \<and> (\<not> isConnected (ps ! q) \<or> allowMultiple (ps ! q)))"

definition addConnection :: "nat \<Rightarrow> nat \<Rightarrow> network \<Rightarrow> network" where
  "addConnection p q st =
     setPort p ((ports st ! p)\<lparr>connectedPorts := connectedPorts (ports st ! p) @ [q]\<rparr>) st"

definition removeConnection :: "nat \<Rightarrow> nat \<Rightarrow> network \<Rightarrow> network" where
  "removeConnection p q st =
     setPort p ((ports st ! p)\<lparr>connectedPorts := remove1 q (connectedPorts (ports st ! p))\<rparr>) st"

definition Port_connect :: "nat \<Rightarrow> nat \<Rightarrow> network \<Rightarrow> bool \<times> network" where
  "Port_connect p q st =
     (if Port_testConnectivity (ports st) p q
      then (True, addConnection q p (addConnection p q st))
      else (False, st))"

definition Port_disconnect :: "nat \<Rightarrow> nat \<Rightarrow> network \<Rightarrow> network" where
  "Port_disconnect p q st = removeConnection q p (removeConnection p q st)"

text \<open>
  \<open>RenderPort::connect\<close>, called on port \<open>p\<close> with the inport \<open>q\<close>. The result is
  optional because of the bound on \<open>getSizeOrigin\<close> and \<open>sizeOriginChanged\<close>.
\<close>

definition connect :: "nat \<Rightarrow> nat \<Rightarrow> nat \<Rightarrow> network \<Rightarrow> (bool \<times> network) option" where
  "connect fuel p q st =
     (case Port_connect p q st of
        (False, st1) \<Rightarrow> Some (False, st1)
      | (True, st1) \<Rightarrow>
          (case getSizeOrigin fuel (ports st1) q of
             None \<Rightarrow> None
           | Some so \<Rightarrow>
               (case sizeOriginChanged fuel p so st1 of
                  None \<Rightarrow> None
                | Some st2 \<Rightarrow>
                    (case getSizeOrigin fuel (ports st2) q of
                       None \<Rightarrow> None
                     | Some so2 \<Rightarrow>
                         Some (True,
                               if so2 \<noteq> 0
                               then emit (ProcPortResized (processor (ports st2 ! p)) p
                                            (portSize (ports st2 ! q))) st2
                               else st2)))))"

text \<open>
  \<open>RenderPort::testConnectivity\<close>, called on port \<open>p\<close> with the inport \<open>q\<close>. The
  verdict of \<open>RenderProcessor::testSizeOrigin\<close>, which is not among the sources, is
  the parameter \<open>testSizeOrigin\<close>, applied to the owning processor, the port and the
  candidate origin.
\<close>

definition testConnectivity ::
  "(nat \<Rightarrow> nat \<Rightarrow> origin \<Rightarrow> bool) \<Rightarrow> nat \<Rightarrow> port list \<Rightarrow> nat \<Rightarrow> nat \<Rightarrow> bool option" where
  "testConnectivity testSizeOrigin fuel ps p q =
     (if \<not> Port_testConnectivity ps p q then Some False
      else
        (case getSizeOrigin fuel ps q of
           None \<Rightarrow> None
         | Some so \<Rightarrow>
             if so = 0 then Some True
             else
               (case getSizeOrigin fuel ps p of
                  None \<Rightarrow> None
                | Some mine \<Rightarrow>
                    if so = mine then Some True
                    else Some (testSizeOrigin (processor (ps ! p)) p so))))"

text \<open>\<open>RenderPort::disconnect\<close>, called on port \<open>p\<close> with the other port \<open>q\<close>.\<close>

definition disconnect :: "nat \<Rightarrow> nat \<Rightarrow> nat \<Rightarrow> network \<Rightarrow> network option" where
  "disconnect fuel p q st =
     (let st1 = Port_disconnect p q st in
      if isOutport (ports st1 ! p) then
        (case getSizeOrigin fuel (ports st1) p of
           None \<Rightarrow> None
         | Some mine \<Rightarrow>
             (case getSizeOrigin fuel (ports st1) q of
                None \<Rightarrow> None
              | Some theirs \<Rightarrow>
                  Some (emit (PortInvalidate q)
                          (if mine \<noteq> theirs
                           then emit (ProcSizeOriginChanged (processor (ports st1 ! p)) p) st1
                           else st1))))
      else Some st1)"

section \<open>PortGroup\<close>

text \<open>
  A group holds pointers to its ports, the pointer \<open>fbo_\<close> (here whether it is
  non-null) and the flag \<open>ignoreConnectivity_\<close>.
\<close>

record port_group =
  pg_ports :: "nat list"
  pg_fbo :: bool
  ignoreConnectivity :: bool

text \<open>What goes wrong outside the logging channel: a raised VoreenException, and the
  two faults of the language that the code does not guard against.\<close>

datatype failure = VoreenException string | NullPointerDereference | OutOfBoundsRead

text \<open>Decimal output of an unsigned number, as \<open>std::ostringstream\<close> writes it.\<close>

fun string_of_nat :: "nat \<Rightarrow> string" where
  "string_of_nat n =
     (if n < 10 then [''0123456789'' ! n]
      else string_of_nat (n div 10) @ [''0123456789'' ! (n mod 10)])"

text \<open>
  \<open>PortGroup::generateHeader\<close>: the loop over \<open>ports_\<close> with the index \<open>i\<close>, the
  counter \<open>targetidx\<close> and the header so far.
\<close>

fun generateHeader_loop :: "port list \<Rightarrow> bool \<Rightarrow> nat list \<Rightarrow> nat \<Rightarrow> nat \<Rightarrow> string \<Rightarrow> string" where
  "generateHeader_loop ps ign [] i targetidx headerSource = headerSource"
| "generateHeader_loop ps ign (q # qs) i targetidx headerSource =
     (if ign \<or> isConnected (ps ! q)
      then generateHeader_loop ps ign qs (Suc i) (Suc targetidx)
             (headerSource @ ''#define OP'' @ string_of_nat i @ '' ''
                @ string_of_nat targetidx @ ''\<newline>'')
      else generateHeader_loop ps ign qs (Suc i) targetidx headerSource)"

definition generateHeader :: "port list \<Rightarrow> port_group \<Rightarrow> string" where
  "generateHeader ps g = generateHeader_loop ps (ignoreConnectivity g) (pg_ports g) 0 0 []"

text \<open>The value of \<open>GL_COLOR_ATTACHMENT0_EXT\<close> in the OpenGL headers.\<close>

definition GL_COLOR_ATTACHMENT0_EXT :: nat where
  "GL_COLOR_ATTACHMENT0_EXT = 36064"

text \<open>
  \<open>PortGroup::activateTargets\<close>. \<open>group_setDebugLabel\<close> is the statement
  \<open>ports_[i]->getRenderTarget()->setDebugLabel(...)\<close>, which dereferences the pointer
  without a check; the loop carries the index \<open>i\<close> and the buffers written so far, whose
  number is \<open>count\<close>.
\<close>

definition group_setDebugLabel :: "nat \<Rightarrow> string \<Rightarrow> network \<Rightarrow> failure + network" where
  "group_setDebugLabel q debugLabel st =
     (case targetHolder (ports st) q of
        None \<Rightarrow> Inl NullPointerDereference
      | Some h \<Rightarrow>
          (case renderTarget (ports st ! h) of
             None \<Rightarrow> Inl NullPointerDereference
           | Some rt \<Rightarrow>
               Inr (setPort h
                      ((ports st ! h)\<lparr>renderTarget := Some (rt_setDebugLabel
                          (procName st (ports st ! q) @ ''::'' @ portName (ports st ! q)
                             @ (if debugLabel = [] then [] else '': '' @ debugLabel)) rt)\<rparr>)
                      st)))"

fun activateTargets_loop ::
  "bool \<Rightarrow> string \<Rightarrow> nat list \<Rightarrow> nat \<Rightarrow> nat list \<Rightarrow> network \<Rightarrow> failure + (nat list \<times> network)" where
  "activateTargets_loop ign debugLabel [] i buffers st = Inr (buffers, st)"
| "activateTargets_loop ign debugLabel (q # qs) i buffers st =
     (if ign \<or> isConnected (ports st ! q) then
        (case group_setDebugLabel q debugLabel (validateResult q st) of
           Inl e \<Rightarrow> Inl e
         | Inr st1 \<Rightarrow>
             activateTargets_loop ign debugLabel qs (Suc i)
               (buffers @ [GL_COLOR_ATTACHMENT0_EXT + i]) st1)
      else activateTargets_loop ign debugLabel qs (Suc i) buffers st)"

definition activateTargets :: "port_group \<Rightarrow> string \<Rightarrow> network \<Rightarrow> failure + network" where
  "activateTargets g debugLabel st =
     (if \<not> pg_fbo g then Inl NullPointerDereference
      else if pg_ports g = [] then Inr (emit FboActivate st)
      else
        (case activateTargets_loop (ignoreConnectivity g) debugLabel (pg_ports g) 0 []
                (emit FboActivate st) of
           Inl e \<Rightarrow> Inl e
         | Inr (buffers, st1) \<Rightarrow>
             Inr (emit (GlViewport 0 0 (fst (getSize (ports st1) (pg_ports g ! 0)))
                                       (snd (getSize (ports st1) (pg_ports g ! 0))))
                    (emit (GlDrawBuffers (length buffers) buffers) st1))))"

declare string_of_nat.simps [simp del]

section \<open>Reading back the color buffer\<close>

text \<open>
  The color texture as \<open>readColorBuffer\<close> sees it: its format, and the downloaded
  buffer together with the data type that says how to read it. A pixel has the four
  channels x, y, z and a. A float channel is the 32 bits of a binary32 number.
\<close>

datatype gl_format = GL_RGBA | GL_OTHER_FORMAT nat

type_synonym 'a vec4 = "'a \<times> 'a \<times> 'a \<times> 'a"

type_synonym col4 = "8 word vec4"

datatype texels =
    GL_UNSIGNED_BYTE "8 word vec4 list"
  | GL_UNSIGNED_SHORT "16 word vec4 list"
  | GL_FLOAT "32 word vec4 list"
  | GL_OTHER_TYPE nat

record texture =
  tex_format :: gl_format
  tex_texels :: texels

definition map_vec4 :: "('a \<Rightarrow> 'b) \<Rightarrow> 'a vec4 \<Rightarrow> 'b vec4" where
  "map_vec4 f v = (case v of (x, y, z, a) \<Rightarrow> (f x, f y, f z, f a))"

text \<open>One channel of the 16 bit branch: \<open>>> 8\<close>, stored into an 8 bit channel.\<close>

definition short_to_byte :: "16 word \<Rightarrow> 8 word" where
  "short_to_byte c = ucast (drop_bit 8 c)"

text \<open>
  The value of a \<open>float\<close>, read from its 32 bits: one sign bit, 8 exponent bits and 23
  fraction bits. An exponent field of 255 is an infinity or, with a fraction, a NaN; an
  exponent field of 0 is a subnormal number or a zero. The finite values are rational
  numbers, and the two zeros are the same value.
\<close>

datatype float_value = NaN | NegInf | Finite rat | PosInf

definition float_decode :: "32 word \<Rightarrow> float_value" where
  "float_decode w =
     (let negative = (2 ^ 31 \<le> unat w);
          e = unat w div 2 ^ 23 mod 2 ^ 8;
          m = unat w mod 2 ^ 23
      in if e = 255 then (if m \<noteq> 0 then NaN else if negative then NegInf else PosInf)
         else Finite ((if negative then - 1 else 1)
                      * (if e = 0 then of_nat m * 2 powi (- 149)
                         else of_nat (2 ^ 23 + m) * 2 powi (int e - 150))))"

text \<open>
  The rounding of a \<open>float\<close> operation, to the nearest \<open>float\<close>, a tie to the one
  with an even significand. \<open>floor_log2 x\<close> is the exponent \<open>e\<close> of a positive \<open>x\<close>,
  with \<open>2^e \<le> x < 2^(e+1)\<close>, computed from the bit lengths of numerator and
  denominator; neighbouring floats at \<open>x\<close> are \<open>2^(e-23)\<close> apart, and \<open>2^-149\<close> in
  the subnormal range. Overflow to an infinity is left out: the only product here is
  one of a number in [0,1] with 255.
\<close>

definition floor_log2 :: "rat \<Rightarrow> int" where
  "floor_log2 x =
     (let d = bitlen (fst (quotient_of x)) - bitlen (snd (quotient_of x))
      in if 2 powi d \<le> x then d else d - 1)"

definition round_to_even :: "rat \<Rightarrow> int" where
  "round_to_even r =
     (if r - of_int \<lfloor>r\<rfloor> < 1 / 2 then \<lfloor>r\<rfloor>
      else if 1 / 2 < r - of_int \<lfloor>r\<rfloor> then \<lfloor>r\<rfloor> + 1
      else if even \<lfloor>r\<rfloor> then \<lfloor>r\<rfloor> else \<lfloor>r\<rfloor> + 1)"

definition float_ulp :: "rat \<Rightarrow> rat" where
  "float_ulp x = 2 powi (max (floor_log2 \<bar>x\<bar>) (- 126) - 23)"

definition float_round :: "rat \<Rightarrow> rat" where
  "float_round x =
     (if x = 0 then 0 else of_int (round_to_even (x / float_ulp x)) * float_ulp x)"

text \<open>
  Modelled from the spec: \<open>tgt::clamp\<close>, the product of a \<open>tgt::Color\<close> with a
  \<open>float\<close> and the conversion of a \<open>tgt::Color\<close> to a \<open>tgt::col4\<close> belong to the
  vector library tgt, which is not among the sources; section 4.2 has the float channel
  clamped to [0,1] and scaled to 255, and section 1 treats the vector math as a
  primitive. They work channel by channel. \<open>float_clamp\<close> is the minimum with \<open>hi\<close>
  of the maximum with \<open>lo\<close>; \<open>float_times\<close> is the float product with a finite
  positive constant; \<open>float_to_ubyte\<close> is the conversion of a \<open>float\<close> to an
  unsigned 8 bit integer, which drops the fraction. The language leaves that conversion
  open when the number without its fraction is no 8 bit value, and what \<open>tgt::clamp\<close>
  makes of a NaN is not known either: the result is then the byte \<open>u\<close>, which may be
  any byte.
\<close>

fun float_clamp :: "float_value \<Rightarrow> rat \<Rightarrow> rat \<Rightarrow> float_value" where
  "float_clamp NaN lo hi = NaN"
| "float_clamp NegInf lo hi = Finite lo"
| "float_clamp PosInf lo hi = Finite hi"
| "float_clamp (Finite x) lo hi = Finite (min (max x lo) hi)"

fun float_times :: "float_value \<Rightarrow> rat \<Rightarrow> float_value" where
  "float_times NaN c = NaN"
| "float_times NegInf c = NegInf"
| "float_times PosInf c = PosInf"
| "float_times (Finite x) c = Finite (float_round (x * c))"

fun float_to_ubyte :: "8 word \<Rightarrow> float_value \<Rightarrow> 8 word" where
  "float_to_ubyte u (Finite x) =
     (if - 1 < x \<and> x < 256 then word_of_int (if x < 0 then \<lceil>x\<rceil> else \<lfloor>x\<rfloor>) else u)"
| "float_to_ubyte u v = u"

text \<open>One channel of the float branch: \<open>tgt::clamp(c, 0.f, 1.f) * 255.f\<close>, stored into
  an 8 bit channel.\<close>

definition float_to_byte :: "8 word \<Rightarrow> 32 word \<Rightarrow> 8 word" where
  "float_to_byte u bits =
     float_to_ubyte u (float_times (float_clamp (float_decode bits) 0 1) 255)"

text \<open>
  \<open>size.x * size.y\<close> is a product of two 32 bit integers, which keeps the low 32 bits
  of the product, read as a signed number.
\<close>

definition int32_mul :: "int \<Rightarrow> int \<Rightarrow> int" where
  "int32_mul x y = sint (word_of_int x * word_of_int y :: 32 word)"

text \<open>
  The two conversion loops fill \<open>pixels_b[i]\<close> from \<open>pixels[i]\<close> for
  \<open>i < size.x * size.y\<close>; reading beyond the downloaded buffer is a fault.
\<close>

definition convert_pixels :: "('a \<Rightarrow> col4) \<Rightarrow> int \<Rightarrow> 'a list \<Rightarrow> failure + col4 list" where
  "convert_pixels conv n pixels =
     (if nat n \<le> length pixels then Inr (map conv (take (nat n) pixels))
      else Inl OutOfBoundsRead)"

text \<open>
  \<open>RenderPort::readColorBuffer\<close>, given what \<open>getColorTexture()\<close> and \<open>getSize()\<close>
  return. Whether the download and the allocation of the result succeed is decided
  outside the program: \<open>downloadOk\<close> and \<open>allocOk\<close> say so, and an array of negative
  length is not allocated either. \<open>u\<close> is the byte of a float channel whose
  conversion the language leaves open.
\<close>

definition readColorBuffer ::
  "8 word \<Rightarrow> bool \<Rightarrow> bool \<Rightarrow> texture option \<Rightarrow> ivec2 \<Rightarrow> failure + col4 list" where
  "readColorBuffer u downloadOk allocOk colorTexture size2 =
     (case colorTexture of
        None \<Rightarrow>
          Inl (VoreenException ''RenderPort::readColorBuffer() called on an empty render port'')
      | Some tex \<Rightarrow>
          if tex_format tex \<noteq> GL_RGBA then
            Inl (VoreenException
              ''RenderPort::readColorBuffer(): Saving render port to file currently only supported for GL_RGBA format'')
          else if \<not> downloadOk then
            Inl (VoreenException ''RenderPort::readColorBuffer(): bad allocation'')
          else
            (case tex_texels tex of
               GL_UNSIGNED_BYTE pixels \<Rightarrow> Inr pixels
             | GL_UNSIGNED_SHORT pixels \<Rightarrow>
                 if \<not> allocOk \<or> int32_mul (fst size2) (snd size2) < 0 then
                   Inl (VoreenException ''RenderPort::readColorBuffer(): bad allocation'')
                 else convert_pixels (map_vec4 short_to_byte)
                        (int32_mul (fst size2) (snd size2)) pixels
             | GL_FLOAT pixels \<Rightarrow>
                 if \<not> allocOk \<or> int32_mul (fst size2) (snd size2) < 0 then
                   Inl (VoreenException ''RenderPort::readColorBuffer(): bad allocation'')
                 else convert_pixels (map_vec4 (float_to_byte u))
                        (int32_mul (fst size2) (snd size2)) pixels
             | GL_OTHER_TYPE t \<Rightarrow>
                 Inl (VoreenException ''RenderPort::readColorBuffer(): unknown data type'')))"

section \<open>Example networks\<close>

text \<open>
  A network of one processor with the given ports, nothing logged yet; and three ports
  to build examples from: an initialized outport, and inports with and without a size
  origin.
\<close>

definition network_of :: "port list \<Rightarrow> network" where
  "network_of ps =
     \<lparr>ports = ps, procNames = [''proc''], events = [], socCalls = 0, socAdopted = []\<rparr>"

definition outportWithTarget :: "nat list \<Rightarrow> port" where
  "outportWithTarget peers =
     (ports (initialize 0 (network_of [RenderPort True ''out'' True 0 0])) ! 0)
       \<lparr>connectedPorts := peers\<rparr>"

definition inportWith :: "origin \<Rightarrow> nat list \<Rightarrow> port" where
  "inportWith so peers =
     (RenderPort False ''in'' True 0 0)\<lparr>sizeOrigin := so, connectedPorts := peers\<rparr>"

text \<open>A processor whose \<open>testSizeOrigin\<close> approves of no origin.\<close>

definition rejectMixing :: "nat \<Rightarrow> nat \<Rightarrow> origin \<Rightarrow> bool" where
  "rejectMixing proc p so = False"

text \<open>A port that is not a RenderPort.\<close>

definition genericOutport :: port where
  "genericOutport = (RenderPort True ''generic'' True 0 0)\<lparr>isRenderPort := False\<rparr>"

text \<open>
  The group of the three outports A, B and C, of which A and C are connected to the
  inport at index 3 and B is not connected.
\<close>

definition exampleGroupNetwork :: network where
  "exampleGroupNetwork =
     network_of [outportWithTarget [3], outportWithTarget [], outportWithTarget [3],
                 inportWith 0 [0, 2]]"

definition exampleGroup :: port_group where
  "exampleGroup = \<lparr>pg_ports = [0, 1, 2], pg_fbo = True, ignoreConnectivity = False\<rparr>"

section \<open>Notions for the propagation of a size origin\<close>


definition pendingInports :: "origin \<Rightarrow> network \<Rightarrow> nat set" where
  "pendingInports so st =
     {r. r < length (ports st) \<and> \<not> isOutport (ports st ! r) \<and> sizeOrigin (ports st ! r) \<noteq> so}"







text \<open>
  The inports that a propagation of \<open>so\<close> from the port \<open>p\<close> reaches: \<open>p\<close> itself
  when it is a pending inport, and every pending inport connected to an inport that is
  reached. The propagation does not pass through an outport, nor through an inport that
  carries \<open>so\<close> already.
\<close>

inductive_set socReach :: "origin \<Rightarrow> network \<Rightarrow> nat \<Rightarrow> nat set"
  for so :: origin and st :: network and p :: nat
where
  root: "p \<in> pendingInports so st \<Longrightarrow> p \<in> socReach so st p"
| step: "a \<in> socReach so st p \<Longrightarrow> c \<in> set (connectedPorts (ports st ! a)) \<Longrightarrow>
         c \<in> pendingInports so st \<Longrightarrow> c \<in> socReach so st p"


definition exampleBeforeConnect :: network where
  "exampleBeforeConnect =
     network_of [outportWithTarget [1], inportWith 5 [0], inportWith 0 []]"

text \<open>The second network after the outport has connected to the free inport.\<close>

definition exampleAfterConnect :: network where
  "exampleAfterConnect =
     \<lparr>ports = [(outportWithTarget [1, 2])\<lparr>validResult := False\<rparr>, inportWith 5 [0],
               inportWith 0 [0]],
      procNames = [''proc''], events = [ProcSizeOriginChanged 0 0],
      socCalls = 1, socAdopted = []\<rparr>"


section \<open>Auxiliary facts\<close>

lemmas example_defs =
  network_of_def outportWithTarget_def inportWith_def RenderPort_def initialize_def
  setPort_def emit_def procName_def rt_new_def rt_resize_def rt_setDebugLabel_def Let_def

lemma hasValidResult_outport:
  "isOutport (ps ! p) \<Longrightarrow>
   hasValidResult ps p = Some (renderTarget (ps ! p) \<noteq> None \<and> validResult (ps ! p))"
  by (subst hasValidResult.simps) simp

lemma hasValidResult_inport_unconnected:
  "\<not> isOutport (ps ! p) \<Longrightarrow> \<not> isConnected (ps ! p) \<Longrightarrow> hasValidResult ps p = Some False"
  by (subst hasValidResult.simps) simp

lemma hasValidResult_inport_first:
  "\<not> isOutport (ps ! p) \<Longrightarrow> isConnected (ps ! p) \<Longrightarrow>
   hasValidResult ps p =
     (if isRenderPort (ps ! (connectedPorts (ps ! p) ! 0))
      then hasValidResult ps (connectedPorts (ps ! p) ! 0) else Some False)"
  by (subst hasValidResult.simps) simp

lemma getSizeOrigin_loop_find:
  "\<forall>q\<in>set qs. g q = Some (og q) \<Longrightarrow>
   getSizeOrigin_loop g qs =
     Some (case find (\<lambda>q. og q \<noteq> 0) qs of None \<Rightarrow> 0 | Some q \<Rightarrow> og q)"
  by (induction qs) auto

lemma getSizeOrigin_inport:
  "\<not> isOutport (ps ! q) \<Longrightarrow> getSizeOrigin (Suc fuel) ps q = Some (sizeOrigin (ps ! q))"
  by simp

lemma getSizeOrigin_outport_inports:
  assumes "isOutport (ps ! p)" and "\<forall>q\<in>set (connectedPorts (ps ! p)). \<not> isOutport (ps ! q)"
  shows "getSizeOrigin (Suc (Suc fuel)) ps p =
           Some (case find (\<lambda>q. sizeOrigin (ps ! q) \<noteq> 0) (connectedPorts (ps ! p)) of
                   None \<Rightarrow> 0 | Some q \<Rightarrow> sizeOrigin (ps ! q))"
proof -
  have "\<forall>q\<in>set (connectedPorts (ps ! p)).
          getSizeOrigin (Suc fuel) ps q = Some (sizeOrigin (ps ! q))"
    using assms(2) by simp
  then have a: "getSizeOrigin_loop (getSizeOrigin (Suc fuel) ps) (connectedPorts (ps ! p)) =
      Some (case find (\<lambda>q. sizeOrigin (ps ! q) \<noteq> 0) (connectedPorts (ps ! p)) of
                   None \<Rightarrow> 0 | Some q \<Rightarrow> sizeOrigin (ps ! q))"
    by (rule getSizeOrigin_loop_find)
  have b: "getSizeOrigin (Suc (Suc fuel)) ps p =
      getSizeOrigin_loop (getSizeOrigin (Suc fuel) ps) (connectedPorts (ps ! p))"
    using assms(1) by simp
  show ?thesis unfolding b by (rule a)
qed

lemma nth_list_update_field:
  "f (xs[k := v] ! q) = (if q = k \<and> k < length xs then f v else f (xs ! q))"
  by (cases "k < length xs") (auto simp: nth_list_update list_update_beyond)

lemma removeConnection_isOutport:
  "isOutport (ports (removeConnection p q st) ! r) = isOutport (ports st ! r)"
  by (simp add: removeConnection_def setPort_def nth_list_update_field)

lemma removeConnection_length:
  "length (ports (removeConnection p q st)) = length (ports st)"
  by (simp add: removeConnection_def setPort_def)

lemma removeConnection_connectedPorts:
  "connectedPorts (ports (removeConnection p q st) ! r) =
     (if r = p \<and> p < length (ports st) then remove1 q (connectedPorts (ports st ! p))
      else connectedPorts (ports st ! r))"
  by (simp add: removeConnection_def setPort_def nth_list_update_field)

lemma Port_disconnect_isOutport:
  "isOutport (ports (Port_disconnect p q st) ! r) = isOutport (ports st ! r)"
  by (simp add: Port_disconnect_def removeConnection_isOutport)

lemma Port_disconnect_subset:
  "set (connectedPorts (ports (Port_disconnect p q st) ! r))
     \<subseteq> set (connectedPorts (ports st ! r))"
  by (auto simp add: Port_disconnect_def removeConnection_connectedPorts removeConnection_length
      dest!: set_remove1_subset [THEN subsetD] split: if_splits)

lemma Port_disconnect_sole:
  assumes "i < length (ports st)" and "connectedPorts (ports st ! i) = [p]"
  shows "connectedPorts (ports (Port_disconnect p i st) ! i) = []"
  using assms
  by (auto simp add: Port_disconnect_def removeConnection_connectedPorts removeConnection_length)

lemma disconnect_ports:
  "disconnect fuel p q st = Some st' \<Longrightarrow> ports st' = ports (Port_disconnect p q st)"
  by (auto simp add: disconnect_def Let_def emit_def split: if_splits option.splits)

lemma disconnect_returns:
  assumes "isOutport (ports st ! p)" and "\<not> isOutport (ports st ! i)"
    and "\<forall>q\<in>set (connectedPorts (ports st ! p)). \<not> isOutport (ports st ! q)"
  shows "disconnect (Suc (Suc fuel)) p i st \<noteq> None"
proof -
  let ?ps = "ports (Port_disconnect p i st)"
  have o: "isOutport (?ps ! p)" using assms(1) by (simp add: Port_disconnect_isOutport)
  have i: "\<not> isOutport (?ps ! i)" using assms(2) by (simp add: Port_disconnect_isOutport)
  have "\<forall>q\<in>set (connectedPorts (?ps ! p)). \<not> isOutport (?ps ! q)"
    using assms(3) Port_disconnect_subset [of p i st p]
    by (auto simp add: Port_disconnect_isOutport)
  from getSizeOrigin_outport_inports [OF o this, of fuel]
  obtain a where a: "getSizeOrigin (Suc (Suc fuel)) ?ps p = Some a" by blast
  have b: "getSizeOrigin (Suc (Suc fuel)) ?ps i = Some (sizeOrigin (?ps ! i))"
    using i by (rule getSizeOrigin_inport)
  show ?thesis
    using o a b by (simp add: disconnect_def Let_def del: getSizeOrigin.simps)
qed

section \<open>Activation validates the result\<close>

text \<open>
  Claim C4. On an outport that has a render target, \<open>activateTarget\<close> binds the target
  (it is active and carries the label), validates the result at once (the flag is set
  and the update counter bumped) and logs nothing; \<open>hasValidResult\<close> then returns true,
  and false again after \<open>invalidateResult\<close>.
\<close>

theorem C4_activateTarget_validates:
  assumes "p < length (ports st)" and "isOutport (ports st ! p)"
    and "renderTarget (ports st ! p) = Some rt"
  shows "ports (activateTarget p debugLabel st) =
           (ports st)[p := (ports st ! p)\<lparr>validResult := True, renderTarget :=
              Some (rt\<lparr>rt_active := True,
                       rt_debugLabel := procName st (ports st ! p) @ '':'' @ portName (ports st ! p)
                          @ (if debugLabel = [] then [] else '': '' @ debugLabel),
                       rt_numUpdates := Suc (rt_numUpdates rt)\<rparr>)\<rparr>]
         \<and> events (activateTarget p debugLabel st) = events st
         \<and> hasValidResult (ports (activateTarget p debugLabel st)) p = Some True
         \<and> hasValidResult (ports (invalidateResult p (activateTarget p debugLabel st))) p
             = Some False"
  using assms
  by (simp add: activateTarget_def validateResult_def invalidateResult_def setPort_def
      hasValidResult_outport rt_activateTarget_def rt_increaseNumUpdates_def Let_def)

theorem C4_activateTarget_validates_witness:
  "0 < length (ports (network_of [outportWithTarget []]))
   \<and> isOutport (ports (network_of [outportWithTarget []]) ! 0)
   \<and> renderTarget (ports (network_of [outportWithTarget []]) ! 0)
        = Some \<lparr>rt_size = (128, 128), rt_colorFormat = 0, rt_depthFormat = 0,
                rt_active = False, rt_numUpdates = 0, rt_debugLabel = ''proc::out''\<rparr>
   \<and> hasValidResult (ports (activateTarget 0 [] (network_of [outportWithTarget []]))) 0
        = Some True
   \<and> hasValidResult
        (ports (invalidateResult 0 (activateTarget 0 [] (network_of [outportWithTarget []])))) 0
        = Some False"
proof -
  have h1: "0 < length (ports (network_of [outportWithTarget []]))"
    by (simp add: example_defs)
  have h2: "isOutport (ports (network_of [outportWithTarget []]) ! 0)"
    by (simp add: example_defs)
  have h3: "renderTarget (ports (network_of [outportWithTarget []]) ! 0)
        = Some \<lparr>rt_size = (128, 128), rt_colorFormat = 0, rt_depthFormat = 0,
                rt_active = False, rt_numUpdates = 0, rt_debugLabel = ''proc::out''\<rparr>"
    by (simp add: example_defs)
  show ?thesis
    using C4_activateTarget_validates [OF h1 h2 h3, of "[]"] h1 h2 h3 by blast
qed

section \<open>Resizing an outport\<close>

text \<open>
  Claim C3. On an outport, \<open>resize\<close> to the recorded size changes nothing at all;
  \<open>resize\<close> to (0,0) leaves every port, and with it the target and its size, as it was
  (a warning is logged unless the recorded size is (0,0) already); \<open>resize\<close> to another
  size that is not (0,0) resizes the owned target, clears the valid flag and records the
  new size, and changes nothing else.
\<close>

theorem C3_resize_outport:
  assumes "isOutport (ports st ! p)"
  shows "(newsize = portSize (ports st ! p) \<longrightarrow> resize p newsize st = st)
       \<and> (newsize = (0, 0) \<longrightarrow>
            ports (resize p newsize st) = ports st
            \<and> resize p newsize st =
                (if portSize (ports st ! p) = (0, 0) then st
                 else emit (LWarning ''resize(): invalid size '') st))
       \<and> (newsize \<noteq> portSize (ports st ! p) \<and> newsize \<noteq> (0, 0) \<longrightarrow>
            resize p newsize st =
              st\<lparr>ports := (ports st)[p := (ports st ! p)
                   \<lparr>renderTarget := map_option (rt_resize newsize) (renderTarget (ports st ! p)),
                    validResult := False, portSize := newsize\<rparr>]\<rparr>
            \<and> (\<forall>rt. rt_size (rt_resize newsize rt) = newsize))"
  using assms
  by (auto simp add: resize_def setPort_def Let_def rt_resize_def emit_def)

theorem C3_resize_outport_witness:
  "isOutport (ports (network_of [outportWithTarget []]) ! 0)
   \<and> resize 0 (128, 128) (network_of [outportWithTarget []]) = network_of [outportWithTarget []]
   \<and> ports (resize 0 (0, 0) (network_of [outportWithTarget []]))
        = ports (network_of [outportWithTarget []])
   \<and> resize 0 (64, 32) (network_of [outportWithTarget []])
        = network_of [(outportWithTarget [])
            \<lparr>renderTarget := Some \<lparr>rt_size = (64, 32), rt_colorFormat = 0, rt_depthFormat = 0,
                rt_active = False, rt_numUpdates = 0, rt_debugLabel = ''proc::out''\<rparr>,
             validResult := False, portSize := (64, 32)\<rparr>]"
proof -
  have h: "isOutport (ports (network_of [outportWithTarget []]) ! 0)"
    by (simp add: example_defs)
  have s: "portSize (ports (network_of [outportWithTarget []]) ! 0) = (128, 128)"
    by (simp add: example_defs)
  note t = C3_resize_outport [OF h]
  have a: "resize 0 (128, 128) (network_of [outportWithTarget []])
             = network_of [outportWithTarget []]"
    using t [of "(128, 128)"] s by simp
  have b: "ports (resize 0 (0, 0) (network_of [outportWithTarget []]))
             = ports (network_of [outportWithTarget []])"
    using t [of "(0, 0)"] by blast
  have c: "resize 0 (64, 32) (network_of [outportWithTarget []])
        = network_of [(outportWithTarget [])
            \<lparr>renderTarget := Some \<lparr>rt_size = (64, 32), rt_colorFormat = 0, rt_depthFormat = 0,
                rt_active = False, rt_numUpdates = 0, rt_debugLabel = ''proc::out''\<rparr>,
             validResult := False, portSize := (64, 32)\<rparr>]"
    using t [of "(64, 32)"] s by (simp add: example_defs)
  show ?thesis using h a b c by blast
qed

section \<open>Validity of an inport's result\<close>

text \<open>
  Claim C2. On an inport whose first connected port is a RenderPort and an outport,
  \<open>hasValidResult\<close> returns what that outport's \<open>hasValidResult\<close> returns, that is
  whether it has a target and its valid flag is set; on an inport that is not connected,
  or whose first connected port is not a RenderPort, it returns false. When the only
  connection of the inport is to \<open>p\<close> and \<open>p\<close> disconnects from it, \<open>hasValidResult\<close>
  on the inport returns false afterwards; the disconnect does return when \<open>p\<close> is an
  outport connected to inports only.
\<close>

theorem C2_hasValidResult_inport:
  assumes "\<not> isOutport (ports st ! i)"
  shows "(isConnected (ports st ! i)
            \<and> isRenderPort (ports st ! (connectedPorts (ports st ! i) ! 0))
            \<and> isOutport (ports st ! (connectedPorts (ports st ! i) ! 0)) \<longrightarrow>
            hasValidResult (ports st) i
              = hasValidResult (ports st) (connectedPorts (ports st ! i) ! 0)
            \<and> hasValidResult (ports st) i =
                Some (renderTarget (ports st ! (connectedPorts (ports st ! i) ! 0)) \<noteq> None
                      \<and> validResult (ports st ! (connectedPorts (ports st ! i) ! 0))))
       \<and> (\<not> isConnected (ports st ! i) \<longrightarrow> hasValidResult (ports st) i = Some False)
       \<and> (isConnected (ports st ! i)
            \<and> \<not> isRenderPort (ports st ! (connectedPorts (ports st ! i) ! 0)) \<longrightarrow>
            hasValidResult (ports st) i = Some False)
       \<and> (i < length (ports st) \<and> connectedPorts (ports st ! i) = [p] \<longrightarrow>
            (\<forall>st'. disconnect fuel p i st = Some st' \<longrightarrow>
                   hasValidResult (ports st') i = Some False)
            \<and> (isOutport (ports st ! p)
                 \<and> (\<forall>q\<in>set (connectedPorts (ports st ! p)). \<not> isOutport (ports st ! q)) \<longrightarrow>
                 disconnect (Suc (Suc fuel)) p i st \<noteq> None))"
proof -
  have d: "hasValidResult (ports st') i = Some False"
    if "i < length (ports st)" "connectedPorts (ports st ! i) = [p]"
       "disconnect fuel p i st = Some st'" for st'
  proof -
    have ps: "ports st' = ports (Port_disconnect p i st)"
      using that(3) by (rule disconnect_ports)
    have "\<not> isOutport (ports st' ! i)"
      using assms by (simp add: ps Port_disconnect_isOutport)
    moreover have "\<not> isConnected (ports st' ! i)"
      using Port_disconnect_sole [OF that(1) that(2)] by (simp add: ps isConnected_def)
    ultimately show ?thesis by (rule hasValidResult_inport_unconnected)
  qed
  show ?thesis
    using assms d disconnect_returns [of st p i fuel]
    by (simp add: hasValidResult_inport_first hasValidResult_inport_unconnected
      hasValidResult_outport)
qed

theorem C2_hasValidResult_inport_witness:
  "\<not> isOutport (ports (network_of [outportWithTarget [1], inportWith 0 [0]]) ! 1)
   \<and> hasValidResult (ports (network_of [outportWithTarget [1], inportWith 0 [0]])) 1
       = hasValidResult (ports (network_of [outportWithTarget [1], inportWith 0 [0]])) 0
   \<and> disconnect 2 0 1 (network_of [outportWithTarget [1], inportWith 0 [0]])
       = Some (emit (PortInvalidate 1)
                (network_of [outportWithTarget [], inportWith 0 []]))
   \<and> hasValidResult
        (ports (emit (PortInvalidate 1) (network_of [outportWithTarget [], inportWith 0 []]))) 1
       = Some False
   \<and> \<not> isOutport (ports (network_of [outportWithTarget [], inportWith 0 []]) ! 1)
   \<and> hasValidResult (ports (network_of [outportWithTarget [], inportWith 0 []])) 1 = Some False"
proof -
  let ?st = "network_of [outportWithTarget [1], inportWith 0 [0]]"
  let ?st2 = "network_of [outportWithTarget [], inportWith 0 []]"
  have h: "\<not> isOutport (ports ?st ! 1)" by (simp add: example_defs)
  have c: "isConnected (ports ?st ! 1) \<and> isRenderPort (ports ?st ! (connectedPorts (ports ?st ! 1) ! 0))
           \<and> isOutport (ports ?st ! (connectedPorts (ports ?st ! 1) ! 0))"
    by (simp add: example_defs isConnected_def)
  have c0: "connectedPorts (ports ?st ! 1) ! 0 = 0" by (simp add: example_defs)
  have l: "1 < length (ports ?st) \<and> connectedPorts (ports ?st ! 1) = [0]"
    by (simp add: example_defs)
  have d: "disconnect 2 0 1 ?st = Some (emit (PortInvalidate 1) ?st2)"
    by (simp add: disconnect_def Port_disconnect_def removeConnection_def example_defs
        numeral_2_eq_2)
  have h2: "\<not> isOutport (ports ?st2 ! 1)" by (simp add: example_defs)
  have u: "\<not> isConnected (ports ?st2 ! 1)" by (simp add: example_defs isConnected_def)
  have a: "hasValidResult (ports ?st) 1 = hasValidResult (ports ?st) 0"
    using C2_hasValidResult_inport [OF h, of 0 2] c c0 by simp
  have b: "hasValidResult (ports (emit (PortInvalidate 1) ?st2)) 1 = Some False"
    using C2_hasValidResult_inport [OF h, of 0 2] l d by blast
  have e: "hasValidResult (ports ?st2) 1 = Some False"
    using C2_hasValidResult_inport [OF h2, of 0 2] u by blast
  show ?thesis using h a d b h2 e by blast
qed

section \<open>The size origin of an outport\<close>

text \<open>
  Claim C10. On an outport \<open>getSizeOrigin\<close> does not read the field \<open>sizeOrigin_\<close>: it
  returns the size origin of the first connected port, in connection order, whose size
  origin is not null, and null when there is none, in particular when the outport is not
  connected. The first part is stated for connected ports of any kind whose own query
  returns \<open>og q\<close>, the second for connected inports, whose query returns their field.
\<close>

theorem C10_getSizeOrigin_outport:
  assumes "isOutport (ps ! p)"
  shows "((\<forall>q\<in>set (connectedPorts (ps ! p)). getSizeOrigin fuel ps q = Some (og q)) \<longrightarrow>
            getSizeOrigin (Suc fuel) ps p =
              Some (case find (\<lambda>q. og q \<noteq> 0) (connectedPorts (ps ! p)) of
                      None \<Rightarrow> 0 | Some q \<Rightarrow> og q))
       \<and> ((\<forall>q\<in>set (connectedPorts (ps ! p)). \<not> isOutport (ps ! q)) \<longrightarrow>
            getSizeOrigin (Suc (Suc fuel)) ps p =
              Some (case find (\<lambda>q. sizeOrigin (ps ! q) \<noteq> 0) (connectedPorts (ps ! p)) of
                      None \<Rightarrow> 0 | Some q \<Rightarrow> sizeOrigin (ps ! q)))
       \<and> (connectedPorts (ps ! p) = [] \<longrightarrow> getSizeOrigin (Suc fuel) ps p = Some 0)"
proof (intro conjI impI)
  assume "\<forall>q\<in>set (connectedPorts (ps ! p)). getSizeOrigin fuel ps q = Some (og q)"
  from getSizeOrigin_loop_find [OF this] assms
  show "getSizeOrigin (Suc fuel) ps p =
          Some (case find (\<lambda>q. og q \<noteq> 0) (connectedPorts (ps ! p)) of
                  None \<Rightarrow> 0 | Some q \<Rightarrow> og q)"
    by simp
next
  assume "\<forall>q\<in>set (connectedPorts (ps ! p)). \<not> isOutport (ps ! q)"
  with assms show "getSizeOrigin (Suc (Suc fuel)) ps p =
          Some (case find (\<lambda>q. sizeOrigin (ps ! q) \<noteq> 0) (connectedPorts (ps ! p)) of
                  None \<Rightarrow> 0 | Some q \<Rightarrow> sizeOrigin (ps ! q))"
    by (rule getSizeOrigin_outport_inports)
next
  assume "connectedPorts (ps ! p) = []"
  with assms show "getSizeOrigin (Suc fuel) ps p = Some 0" by simp
qed

theorem C10_getSizeOrigin_outport_witness:
  "isOutport ([outportWithTarget [1, 2], inportWith 0 [0], inportWith 7 [0]] ! 0)
   \<and> getSizeOrigin 2 [outportWithTarget [1, 2], inportWith 0 [0], inportWith 7 [0]] 0 = Some 7
   \<and> isOutport ([(outportWithTarget [])\<lparr>sizeOrigin := 5\<rparr>] ! 0)
   \<and> getSizeOrigin 1 [(outportWithTarget [])\<lparr>sizeOrigin := 5\<rparr>] 0 = Some 0"
proof -
  let ?ps = "[outportWithTarget [1, 2], inportWith 0 [0], inportWith 7 [0]]"
  have h: "isOutport (?ps ! 0)" by (simp add: example_defs)
  have i: "\<forall>q\<in>set (connectedPorts (?ps ! 0)). \<not> isOutport (?ps ! q)"
    by (simp add: example_defs)
  have c: "connectedPorts (?ps ! 0) = [1, 2]" by (simp add: example_defs)
  have a: "getSizeOrigin 2 ?ps 0 = Some 7"
    using C10_getSizeOrigin_outport [OF h, of 0 "\<lambda>q. 0", THEN conjunct2, THEN conjunct1] i
    unfolding c by (simp add: example_defs numeral_2_eq_2)
  have h2: "isOutport ([(outportWithTarget [])\<lparr>sizeOrigin := 5\<rparr>] ! 0)"
    by (simp add: example_defs)
  have b: "getSizeOrigin 1 [(outportWithTarget [])\<lparr>sizeOrigin := 5\<rparr>] 0 = Some 0"
    using C10_getSizeOrigin_outport [OF h2, of 0 "\<lambda>q. 0"] by (simp add: example_defs)
  show ?thesis using h a h2 b by blast
qed

section \<open>The connection test\<close>

text \<open>
  Claim C5, as the code has it. When both size-origin queries return, \<open>testConnectivity\<close>
  returns true exactly when the base check passes and the candidate inport has no size
  origin, or its size origin is the one of this port, or the owning processor's
  \<open>testSizeOrigin\<close> approves of it. That this port has no size origin does not suffice:
  the processor is asked whenever the candidate's origin is not null and differs from
  this port's.
\<close>

theorem C5_testConnectivity_verdict:
  assumes "getSizeOrigin fuel ps q = Some theirs" and "getSizeOrigin fuel ps p = Some mine"
  shows "testConnectivity testSizeOrigin fuel ps p q =
           Some (Port_testConnectivity ps p q
                 \<and> (theirs = 0 \<or> theirs = mine \<or> testSizeOrigin (processor (ps ! p)) p theirs))"
  using assms by (simp add: testConnectivity_def)

theorem C5_testConnectivity_verdict_witness:
  "getSizeOrigin 2 [outportWithTarget [1], inportWith 7 [0], inportWith 7 []] 2 = Some 7
   \<and> getSizeOrigin 2 [outportWithTarget [1], inportWith 7 [0], inportWith 7 []] 0 = Some 7
   \<and> testConnectivity rejectMixing 2
        [outportWithTarget [1], inportWith 7 [0], inportWith 7 []] 0 2 = Some True"
proof -
  have h1: "getSizeOrigin 2 [outportWithTarget [1], inportWith 7 [0], inportWith 7 []] 2 = Some 7"
    by (simp add: example_defs numeral_2_eq_2)
  have h2: "getSizeOrigin 2 [outportWithTarget [1], inportWith 7 [0], inportWith 7 []] 0 = Some 7"
    by (simp add: example_defs numeral_2_eq_2)
  have b: "Port_testConnectivity [outportWithTarget [1], inportWith 7 [0], inportWith 7 []] 0 2"
    by (simp add: Port_testConnectivity_def isInport_def isConnected_def example_defs)
  show ?thesis
    using C5_testConnectivity_verdict [OF h1 h2, of rejectMixing] h1 h2 b by simp
qed

text \<open>
  Claim C5 as stated fails: the base check passes and this port, an unconnected outport,
  has no size origin, yet the connection to an inport with size origin 7 is refused when
  the processor does not approve.
\<close>

theorem C5_testConnectivity_counterexample:
  "Port_testConnectivity [outportWithTarget [], inportWith 7 []] 0 1
   \<and> getSizeOrigin 2 [outportWithTarget [], inportWith 7 []] 0 = Some 0
   \<and> getSizeOrigin 2 [outportWithTarget [], inportWith 7 []] 1 = Some 7
   \<and> testConnectivity rejectMixing 2 [outportWithTarget [], inportWith 7 []] 0 1 = Some False"
  by (simp add: testConnectivity_def Port_testConnectivity_def rejectMixing_def isInport_def
      isConnected_def example_defs numeral_2_eq_2)

section \<open>Misuse is logged and changes nothing\<close>

lemma targetHolder_loop_none:
  "\<forall>q\<in>set qs. \<not> isRenderPort (ps ! q) \<Longrightarrow> targetHolder_loop ps qs = None"
  by (induction qs) auto

lemma foldl_emit_log:
  "(\<And>s rp. \<not> isLogMessage (F s rp)) \<Longrightarrow>
   ports (foldl (\<lambda>s rp. emit (F s rp) s) st xs) = ports st
   \<and> filter isLogMessage (events (foldl (\<lambda>s rp. emit (F s rp) s) st xs))
       = filter isLogMessage (events st)"
  by (induction xs arbitrary: st) (simp_all add: emit_def)

lemma resize_inport_records:
  assumes "\<not> isOutport (ports st ! p)" and "p < length (ports st)"
  shows "portSize (ports (resize p newsize st) ! p) = newsize
         \<and> filter isLogMessage (events (resize p newsize st))
             = filter isLogMessage (events st)"
  using assms by (simp add: resize_def Let_def foldl_emit_log) (simp add: setPort_def)

text \<open>
  Claim C9, as the code has it. Each of the seven outport-only operations, called on an
  inport, logs one error and changes no port; so does \<open>activateTarget\<close> on an outport
  that has no render target. A \<open>resize\<close> of an outport to (0,0) changes no port and logs
  a warning, unless (0,0) is the recorded size already. Logging appends one event and
  leaves the ports alone. An inport that is not connected, or is connected to ports that
  are not RenderPorts, has no render target (null) and no valid result (false). A
  \<open>resize\<close> of an inport of the store records the requested size, whatever it is, and
  logs nothing.
\<close>

theorem C9_misuse_logged_noop:
  "(\<not> isOutport (ports st ! p) \<longrightarrow>
      activateTarget p debugLabel st =
        emit (LError (''activateTarget() called on inport ('' @ procName st (ports st ! p)
                      @ '':'' @ portName (ports st ! p) @ '')'')) st
      \<and> deactivateTarget p st = emit (LError ''deactivateTarget() called on inport'') st
      \<and> validateResult p st = emit (LError ''validateResult() called on inport'') st
      \<and> invalidateResult p st = emit (LError ''invalidateResult() called on inport'') st
      \<and> changeFormat p colorFormat depthFormat st
          = emit (LError ''changeFormat() called on inport'') st
      \<and> clearTarget p st = emit (LError ''clearTarget() called on inport'') st
      \<and> setRenderTarget p rt st = emit (LError ''setRenderTarget() called on inport'') st)
   \<and> (isOutport (ports st ! p) \<and> renderTarget (ports st ! p) = None \<longrightarrow>
      activateTarget p debugLabel st =
        emit (LError (''Trying to activate RenderPort without RenderTarget (''
                      @ procName st (ports st ! p) @ '':'' @ portName (ports st ! p) @ '')'')) st)
   \<and> (isOutport (ports st ! p) \<longrightarrow>
      resize p (0, 0) st =
        (if portSize (ports st ! p) = (0, 0) then st
         else emit (LWarning ''resize(): invalid size '') st))
   \<and> ports (emit e st) = ports st \<and> events (emit e st) = events st @ [e]
   \<and> (\<not> isOutport (ports st ! p) \<and> \<not> isConnected (ports st ! p) \<longrightarrow>
      getRenderTarget (ports st) p = None \<and> hasValidResult (ports st) p = Some False)
   \<and> (\<not> isOutport (ports st ! p) \<and> isConnected (ports st ! p)
        \<and> (\<forall>q\<in>set (connectedPorts (ports st ! p)). \<not> isRenderPort (ports st ! q)) \<longrightarrow>
      getRenderTarget (ports st) p = None \<and> hasValidResult (ports st) p = Some False)
   \<and> (\<not> isOutport (ports st ! p) \<and> p < length (ports st) \<longrightarrow>
      portSize (ports (resize p newsize st) ! p) = newsize
      \<and> filter isLogMessage (events (resize p newsize st))
          = filter isLogMessage (events st))"
proof -
  have a: "getRenderTarget (ports st) p = None \<and> hasValidResult (ports st) p = Some False"
    if "\<not> isOutport (ports st ! p)" "isConnected (ports st ! p)"
      "\<forall>q\<in>set (connectedPorts (ports st ! p)). \<not> isRenderPort (ports st ! q)"
  proof -
    have "connectedPorts (ports st ! p) ! 0 \<in> set (connectedPorts (ports st ! p))"
      using that(2) by (simp add: isConnected_def)
    with that(3) have "\<not> isRenderPort (ports st ! (connectedPorts (ports st ! p) ! 0))"
      by blast
    then show ?thesis
      using that by (simp add: hasValidResult_inport_first getRenderTarget_def targetHolder_def
          targetHolder_loop_none)
  qed
  have b: "getRenderTarget (ports st) p = None \<and> hasValidResult (ports st) p = Some False"
    if "\<not> isOutport (ports st ! p)" "\<not> isConnected (ports st ! p)"
    using that by (simp add: hasValidResult_inport_unconnected getRenderTarget_def
        targetHolder_def isConnected_def)
  have c: "\<not> isOutport (ports st ! p) \<and> p < length (ports st) \<longrightarrow>
      portSize (ports (resize p newsize st) ! p) = newsize
      \<and> filter isLogMessage (events (resize p newsize st))
          = filter isLogMessage (events st)"
    using resize_inport_records [of st p newsize] by blast
  have "(\<not> isOutport (ports st ! p) \<longrightarrow>
      activateTarget p debugLabel st =
        emit (LError (''activateTarget() called on inport ('' @ procName st (ports st ! p)
                      @ '':'' @ portName (ports st ! p) @ '')'')) st
      \<and> deactivateTarget p st = emit (LError ''deactivateTarget() called on inport'') st
      \<and> validateResult p st = emit (LError ''validateResult() called on inport'') st
      \<and> invalidateResult p st = emit (LError ''invalidateResult() called on inport'') st
      \<and> changeFormat p colorFormat depthFormat st
          = emit (LError ''changeFormat() called on inport'') st
      \<and> clearTarget p st = emit (LError ''clearTarget() called on inport'') st
      \<and> setRenderTarget p rt st = emit (LError ''setRenderTarget() called on inport'') st)
   \<and> (isOutport (ports st ! p) \<and> renderTarget (ports st ! p) = None \<longrightarrow>
      activateTarget p debugLabel st =
        emit (LError (''Trying to activate RenderPort without RenderTarget (''
                      @ procName st (ports st ! p) @ '':'' @ portName (ports st ! p) @ '')'')) st)
   \<and> (isOutport (ports st ! p) \<longrightarrow>
      resize p (0, 0) st =
        (if portSize (ports st ! p) = (0, 0) then st
         else emit (LWarning ''resize(): invalid size '') st))
   \<and> ports (emit e st) = ports st \<and> events (emit e st) = events st @ [e]
   \<and> (\<not> isOutport (ports st ! p) \<and> \<not> isConnected (ports st ! p) \<longrightarrow>
      getRenderTarget (ports st) p = None \<and> hasValidResult (ports st) p = Some False)
   \<and> (\<not> isOutport (ports st ! p) \<and> isConnected (ports st ! p)
        \<and> (\<forall>q\<in>set (connectedPorts (ports st ! p)). \<not> isRenderPort (ports st ! q)) \<longrightarrow>
      getRenderTarget (ports st) p = None \<and> hasValidResult (ports st) p = Some False)"
    using a b
    by (simp add: activateTarget_def deactivateTarget_def validateResult_def
        invalidateResult_def changeFormat_def clearTarget_def setRenderTarget_def resize_def
        emit_def Let_def)
  with c show ?thesis
    apply (elim conjE)
    apply (intro conjI)
           apply assumption+
    done
qed

theorem C9_misuse_logged_noop_witness:
  "(\<not> isOutport (ports (network_of [inportWith 0 []]) ! 0)
    \<and> \<not> isConnected (ports (network_of [inportWith 0 []]) ! 0))
   \<and> activateTarget 0 [] (network_of [inportWith 0 []])
       = (network_of [inportWith 0 []])
           \<lparr>events := [LError ''activateTarget() called on inport (proc:in)'']\<rparr>
   \<and> setRenderTarget 0 None (network_of [inportWith 0 []])
       = (network_of [inportWith 0 []])
           \<lparr>events := [LError ''setRenderTarget() called on inport'']\<rparr>
   \<and> getRenderTarget (ports (network_of [inportWith 0 []])) 0 = None
   \<and> hasValidResult (ports (network_of [inportWith 0 []])) 0 = Some False
   \<and> (isOutport (ports (network_of [RenderPort True ''out'' True 0 0]) ! 0)
      \<and> renderTarget (ports (network_of [RenderPort True ''out'' True 0 0]) ! 0) = None)
   \<and> activateTarget 0 [] (network_of [RenderPort True ''out'' True 0 0])
       = (network_of [RenderPort True ''out'' True 0 0])
           \<lparr>events := [LError ''Trying to activate RenderPort without RenderTarget (proc:out)'']\<rparr>
   \<and> resize 0 (0, 0) (network_of [RenderPort True ''out'' True 0 0])
       = (network_of [RenderPort True ''out'' True 0 0])
           \<lparr>events := [LWarning ''resize(): invalid size '']\<rparr>
   \<and> (\<not> isOutport (ports (network_of [inportWith 0 [1], genericOutport]) ! 0)
      \<and> isConnected (ports (network_of [inportWith 0 [1], genericOutport]) ! 0)
      \<and> \<not> isRenderPort (ports (network_of [inportWith 0 [1], genericOutport]) ! 1))
   \<and> getRenderTarget (ports (network_of [inportWith 0 [1], genericOutport])) 0 = None
   \<and> hasValidResult (ports (network_of [inportWith 0 [1], genericOutport])) 0 = Some False
   \<and> (\<not> isOutport (ports (network_of [inportWith 5 [1], outportWithTarget [0]]) ! 0)
      \<and> 0 < length (ports (network_of [inportWith 5 [1], outportWithTarget [0]])))
   \<and> portSize (ports (resize 0 (0, 0) (network_of [inportWith 5 [1], outportWithTarget [0]])) ! 0)
       = (0, 0)
   \<and> filter isLogMessage
        (events (resize 0 (0, 0) (network_of [inportWith 5 [1], outportWithTarget [0]]))) = []"
proof -
  let ?i = "network_of [inportWith 0 []]"
  let ?o = "network_of [RenderPort True ''out'' True 0 0]"
  let ?g = "network_of [inportWith 0 [1], genericOutport]"
  have hi: "\<not> isOutport (ports ?i ! 0) \<and> \<not> isConnected (ports ?i ! 0)"
    by (simp add: example_defs isConnected_def)
  have ho: "isOutport (ports ?o ! 0) \<and> renderTarget (ports ?o ! 0) = None"
    by (simp add: example_defs)
  have hg: "\<not> isOutport (ports ?g ! 0) \<and> isConnected (ports ?g ! 0)
      \<and> \<not> isRenderPort (ports ?g ! 1)"
    by (simp add: example_defs isConnected_def genericOutport_def)
  have hg2: "\<forall>q\<in>set (connectedPorts (ports ?g ! 0)). \<not> isRenderPort (ports ?g ! q)"
    by (simp add: example_defs genericOutport_def)
  have a1: "activateTarget 0 [] ?i
       = ?i\<lparr>events := [LError ''activateTarget() called on inport (proc:in)'']\<rparr>"
    using C9_misuse_logged_noop [of ?i 0 "[]"] hi by (simp add: example_defs)
  have a2: "setRenderTarget 0 None ?i
       = ?i\<lparr>events := [LError ''setRenderTarget() called on inport'']\<rparr>"
    using C9_misuse_logged_noop [of ?i 0 "[]" 0 0 None] hi by (simp add: example_defs)
  have a3: "getRenderTarget (ports ?i) 0 = None \<and> hasValidResult (ports ?i) 0 = Some False"
    using C9_misuse_logged_noop [of ?i 0] hi by blast
  have b1: "activateTarget 0 [] ?o
       = ?o\<lparr>events := [LError ''Trying to activate RenderPort without RenderTarget (proc:out)'']\<rparr>"
    using C9_misuse_logged_noop [of ?o 0 "[]"] ho by (simp add: example_defs)
  have b2: "resize 0 (0, 0) ?o = ?o\<lparr>events := [LWarning ''resize(): invalid size '']\<rparr>"
    using C9_misuse_logged_noop [of ?o 0] ho by (simp add: example_defs)
  have c: "getRenderTarget (ports ?g) 0 = None \<and> hasValidResult (ports ?g) 0 = Some False"
    using C9_misuse_logged_noop [of ?g 0] hg hg2 by blast
  let ?r = "network_of [inportWith 5 [1], outportWithTarget [0]]"
  have hr: "\<not> isOutport (ports ?r ! 0) \<and> 0 < length (ports ?r)"
    by (simp add: example_defs)
  have er: "events ?r = []" by (simp add: example_defs)
  have d: "portSize (ports (resize 0 (0, 0) ?r) ! 0) = (0, 0)
       \<and> filter isLogMessage (events (resize 0 (0, 0) ?r)) = []"
    using C9_misuse_logged_noop [where st = ?r and p = 0 and newsize = "(0, 0)"] hr er
    by simp
  show ?thesis using hi ho hg a1 a2 a3 b1 b2 c hr d by blast
qed

text \<open>
  Claim C9 as stated fails for the resize to a zero size when the port is an inport:
  the inport records (0,0) as its size and nothing is logged.
\<close>

theorem C9_resize_inport_counterexample:
  "\<not> isOutport (ports (network_of [inportWith 0 []]) ! 0)
   \<and> portSize (ports (network_of [inportWith 0 []]) ! 0) = (128, 128)
   \<and> portSize (ports (resize 0 (0, 0) (network_of [inportWith 0 []])) ! 0) = (0, 0)
   \<and> events (resize 0 (0, 0) (network_of [inportWith 0 []])) = []"
  by (simp add: resize_def example_defs)

section \<open>PortGroup: output indices and draw buffers\<close>

lemma generateHeader_loop_eq:
  "generateHeader_loop ps ign qs i t acc =
     acc @ concat (map (\<lambda>(k, (j, q)). ''#define OP'' @ string_of_nat j @ '' ''
                                        @ string_of_nat k @ ''\<newline>'')
                    (enumerate t (filter (\<lambda>(j, q). ign \<or> isConnected (ps ! q))
                                   (enumerate i qs))))"
  by (induction qs arbitrary: i t acc) auto

lemma string_of_nat_digits:
  "string_of_nat 0 = ''0''" "string_of_nat (Suc 0) = ''1''"
  "string_of_nat (Suc (Suc 0)) = ''2''"
  by (simp_all add: string_of_nat.simps)

lemma group_step:
  assumes "isOutport (ports st ! q)" and "renderTarget (ports st ! q) \<noteq> None"
  shows "\<exists>st1. group_setDebugLabel q debugLabel (validateResult q st) = Inr st1
           \<and> events st1 = events st
           \<and> (\<forall>r. isOutport (ports st1 ! r) = isOutport (ports st ! r)
                  \<and> connectedPorts (ports st1 ! r) = connectedPorts (ports st ! r)
                  \<and> (renderTarget (ports st1 ! r) = None) = (renderTarget (ports st ! r) = None))"
proof -
  from assms(2) obtain rt where rt: "renderTarget (ports st ! q) = Some rt" by blast
  let ?st1 = "validateResult q st"
  have v: "?st1 = setPort q ((ports st ! q)\<lparr>validResult := True,
                     renderTarget := Some (rt_increaseNumUpdates rt)\<rparr>) st"
    using assms(1) rt by (simp add: validateResult_def Let_def)
  have o: "isOutport (ports ?st1 ! q)"
    using assms(1) by (simp add: v setPort_def nth_list_update_field)
  obtain rt1 where rt1: "renderTarget (ports ?st1 ! q) = Some rt1"
    using rt by (cases "q < length (ports st)") (simp_all add: v setPort_def list_update_beyond)
  have f1: "\<forall>r. isOutport (ports ?st1 ! r) = isOutport (ports st ! r)
                  \<and> connectedPorts (ports ?st1 ! r) = connectedPorts (ports st ! r)
                  \<and> (renderTarget (ports ?st1 ! r) = None) = (renderTarget (ports st ! r) = None)"
    using rt by (auto simp add: v setPort_def nth_list_update_field)
  have g: "group_setDebugLabel q debugLabel ?st1 =
      Inr (setPort q ((ports ?st1 ! q)\<lparr>renderTarget := Some (rt_setDebugLabel
             (procName ?st1 (ports ?st1 ! q) @ ''::'' @ portName (ports ?st1 ! q)
                @ (if debugLabel = [] then [] else '': '' @ debugLabel)) rt1)\<rparr>) ?st1)"
    using o rt1 by (simp add: group_setDebugLabel_def targetHolder_def)
  have e: "events ?st1 = events st" by (simp add: v setPort_def)
  show ?thesis
    unfolding g using f1 e rt1 rt
    by (auto simp add: setPort_def nth_list_update_field)
qed

lemma activateTargets_loop_buffers:
  assumes "\<forall>q\<in>set qs. ign \<or> isConnected (ports st ! q) \<longrightarrow>
             isOutport (ports st ! q) \<and> renderTarget (ports st ! q) \<noteq> None"
  shows "\<exists>st'. activateTargets_loop ign debugLabel qs i buffers st =
             Inr (buffers @ map (\<lambda>(j, q). GL_COLOR_ATTACHMENT0_EXT + j)
                              (filter (\<lambda>(j, q). ign \<or> isConnected (ports st ! q))
                                 (enumerate i qs)), st')
           \<and> events st' = events st"
  using assms
proof (induction qs arbitrary: i buffers st)
  case Nil
  then show ?case by simp
next
  case (Cons q qs)
  show ?case
  proof (cases "ign \<or> isConnected (ports st ! q)")
    case True
    with Cons.prems have "isOutport (ports st ! q)" "renderTarget (ports st ! q) \<noteq> None"
      by auto
    from group_step [OF this, of debugLabel] obtain st1 where
      s: "group_setDebugLabel q debugLabel (validateResult q st) = Inr st1"
      and e: "events st1 = events st"
      and f: "\<forall>r. isOutport (ports st1 ! r) = isOutport (ports st ! r)
                  \<and> connectedPorts (ports st1 ! r) = connectedPorts (ports st ! r)
                  \<and> (renderTarget (ports st1 ! r) = None) = (renderTarget (ports st ! r) = None)"
      by blast
    have c: "\<And>r. isConnected (ports st1 ! r) = isConnected (ports st ! r)"
      using f by (simp add: isConnected_def)
    have "\<forall>q\<in>set qs. ign \<or> isConnected (ports st1 ! q) \<longrightarrow>
             isOutport (ports st1 ! q) \<and> renderTarget (ports st1 ! q) \<noteq> None"
      using Cons.prems f c by simp
    from Cons.IH [OF this, of "Suc i" "buffers @ [GL_COLOR_ATTACHMENT0_EXT + i]"]
    show ?thesis using True s e c by auto
  next
    case False
    with Cons.prems have "\<forall>q\<in>set qs. ign \<or> isConnected (ports st ! q) \<longrightarrow>
             isOutport (ports st ! q) \<and> renderTarget (ports st ! q) \<noteq> None"
      by simp
    from Cons.IH [OF this, of "Suc i" buffers] show ?thesis using False by auto
  qed
qed

text \<open>
  Claim C7. \<open>generateHeader\<close> writes one line per port of the group that is connected
  (or per port, when the group ignores connectivity), in order: the macro name carries
  the position of the port in the group, the value counts the lines written before, and
  the other ports are skipped. For the ports A, B, C with A and C connected and B not,
  these are the two lines for OP0 and OP2 with the values 0 and 1; and
  \<open>activateTargets\<close>, when A and C are outports with a render target, activates the
  framebuffer object and passes \<open>glDrawBuffers\<close> the count 2 with the attachments 0
  and 2, before it sets the viewport.
\<close>

theorem C7_portgroup_indices:
  "generateHeader ps g =
     concat (map (\<lambda>(k, (j, q)). ''#define OP'' @ string_of_nat j @ '' ''
                                  @ string_of_nat k @ ''\<newline>'')
              (enumerate 0 (filter (\<lambda>(j, q). ignoreConnectivity g \<or> isConnected (ps ! q))
                              (enumerate 0 (pg_ports g)))))
   \<and> (pg_ports g = [a, b, c] \<and> \<not> ignoreConnectivity g
        \<and> isConnected (ps ! a) \<and> \<not> isConnected (ps ! b) \<and> isConnected (ps ! c) \<longrightarrow>
        generateHeader ps g = ''#define OP0 0\<newline>#define OP2 1\<newline>'')
   \<and> (pg_ports g = [a, b, c] \<and> \<not> ignoreConnectivity g \<and> pg_fbo g
        \<and> isConnected (ports st ! a) \<and> \<not> isConnected (ports st ! b)
        \<and> isConnected (ports st ! c)
        \<and> isOutport (ports st ! a) \<and> renderTarget (ports st ! a) \<noteq> None
        \<and> isOutport (ports st ! c) \<and> renderTarget (ports st ! c) \<noteq> None \<longrightarrow>
        (\<exists>st' w h. activateTargets g debugLabel st = Inr st'
           \<and> events st' = events st @ [FboActivate,
                GlDrawBuffers 2 [GL_COLOR_ATTACHMENT0_EXT + 0, GL_COLOR_ATTACHMENT0_EXT + 2],
                GlViewport 0 0 w h]))"
proof (intro conjI impI)
  show "generateHeader ps g =
     concat (map (\<lambda>(k, (j, q)). ''#define OP'' @ string_of_nat j @ '' ''
                                  @ string_of_nat k @ ''\<newline>'')
              (enumerate 0 (filter (\<lambda>(j, q). ignoreConnectivity g \<or> isConnected (ps ! q))
                              (enumerate 0 (pg_ports g)))))"
    by (simp add: generateHeader_def generateHeader_loop_eq)
next
  assume "pg_ports g = [a, b, c] \<and> \<not> ignoreConnectivity g
        \<and> isConnected (ps ! a) \<and> \<not> isConnected (ps ! b) \<and> isConnected (ps ! c)"
  then show "generateHeader ps g = ''#define OP0 0\<newline>#define OP2 1\<newline>''"
    by (simp add: generateHeader_def string_of_nat_digits)
next
  assume h: "pg_ports g = [a, b, c] \<and> \<not> ignoreConnectivity g \<and> pg_fbo g
        \<and> isConnected (ports st ! a) \<and> \<not> isConnected (ports st ! b)
        \<and> isConnected (ports st ! c)
        \<and> isOutport (ports st ! a) \<and> renderTarget (ports st ! a) \<noteq> None
        \<and> isOutport (ports st ! c) \<and> renderTarget (ports st ! c) \<noteq> None"
  let ?st0 = "emit FboActivate st"
  have p: "ports ?st0 = ports st" by (simp add: emit_def)
  have "\<forall>q\<in>set (pg_ports g). ignoreConnectivity g \<or> isConnected (ports ?st0 ! q) \<longrightarrow>
             isOutport (ports ?st0 ! q) \<and> renderTarget (ports ?st0 ! q) \<noteq> None"
    using h by (auto simp add: p)
  from activateTargets_loop_buffers [OF this, of debugLabel 0 "[]"] obtain st1 where
    l: "activateTargets_loop (ignoreConnectivity g) debugLabel (pg_ports g) 0 [] ?st0 =
          Inr (map (\<lambda>(j, q). GL_COLOR_ATTACHMENT0_EXT + j)
                 (filter (\<lambda>(j, q). ignoreConnectivity g \<or> isConnected (ports ?st0 ! q))
                    (enumerate 0 (pg_ports g))), st1)"
    and e: "events st1 = events ?st0"
    by auto
  have b: "map (\<lambda>(j, q). GL_COLOR_ATTACHMENT0_EXT + j)
                 (filter (\<lambda>(j, q). ignoreConnectivity g \<or> isConnected (ports ?st0 ! q))
                    (enumerate 0 (pg_ports g)))
           = [GL_COLOR_ATTACHMENT0_EXT + 0, GL_COLOR_ATTACHMENT0_EXT + 2]"
    using h by (simp add: p)
  show "\<exists>st' w h. activateTargets g debugLabel st = Inr st'
           \<and> events st' = events st @ [FboActivate,
                GlDrawBuffers 2 [GL_COLOR_ATTACHMENT0_EXT + 0, GL_COLOR_ATTACHMENT0_EXT + 2],
                GlViewport 0 0 w h]"
    using h l e unfolding b
    by (simp add: activateTargets_def emit_def)
qed

theorem C7_portgroup_indices_witness:
  "(pg_ports exampleGroup = [0, 1, 2] \<and> \<not> ignoreConnectivity exampleGroup \<and> pg_fbo exampleGroup
    \<and> isConnected (ports exampleGroupNetwork ! 0) \<and> \<not> isConnected (ports exampleGroupNetwork ! 1)
    \<and> isConnected (ports exampleGroupNetwork ! 2)
    \<and> isOutport (ports exampleGroupNetwork ! 0)
    \<and> renderTarget (ports exampleGroupNetwork ! 0) \<noteq> None
    \<and> isOutport (ports exampleGroupNetwork ! 2)
    \<and> renderTarget (ports exampleGroupNetwork ! 2) \<noteq> None)
   \<and> generateHeader (ports exampleGroupNetwork) exampleGroup
        = ''#define OP0 0\<newline>#define OP2 1\<newline>''
   \<and> (\<exists>st' w h. activateTargets exampleGroup [] exampleGroupNetwork = Inr st'
           \<and> events st' = events exampleGroupNetwork @ [FboActivate,
                GlDrawBuffers 2 [GL_COLOR_ATTACHMENT0_EXT + 0, GL_COLOR_ATTACHMENT0_EXT + 2],
                GlViewport 0 0 w h])"
proof -
  have h: "pg_ports exampleGroup = [0, 1, 2] \<and> \<not> ignoreConnectivity exampleGroup \<and> pg_fbo exampleGroup
    \<and> isConnected (ports exampleGroupNetwork ! 0) \<and> \<not> isConnected (ports exampleGroupNetwork ! 1)
    \<and> isConnected (ports exampleGroupNetwork ! 2)
    \<and> isOutport (ports exampleGroupNetwork ! 0)
    \<and> renderTarget (ports exampleGroupNetwork ! 0) \<noteq> None
    \<and> isOutport (ports exampleGroupNetwork ! 2)
    \<and> renderTarget (ports exampleGroupNetwork ! 2) \<noteq> None"
    by (simp add: exampleGroup_def exampleGroupNetwork_def isConnected_def example_defs)
  note t = C7_portgroup_indices [of "ports exampleGroupNetwork" exampleGroup 0 1 2
      exampleGroupNetwork "[]"]
  have a: "generateHeader (ports exampleGroupNetwork) exampleGroup
        = ''#define OP0 0\<newline>#define OP2 1\<newline>''"
    using t h by blast
  have b: "\<exists>st' w h. activateTargets exampleGroup [] exampleGroupNetwork = Inr st'
           \<and> events st' = events exampleGroupNetwork @ [FboActivate,
                GlDrawBuffers 2 [GL_COLOR_ATTACHMENT0_EXT + 0, GL_COLOR_ATTACHMENT0_EXT + 2],
                GlViewport 0 0 w h]"
    using t h by blast
  show ?thesis using h a b by blast
qed

text \<open>The same run of \<open>activateTargets\<close>, computed.\<close>

lemma exampleGroup_run:
  "map_sum id events (activateTargets exampleGroup [] exampleGroupNetwork)
     = Inr [FboActivate, GlDrawBuffers 2 [36064, 36066], GlViewport 0 0 128 128]"
  by (simp add: activateTargets_def exampleGroup_def exampleGroupNetwork_def isConnected_def
      group_setDebugLabel_def validateResult_def targetHolder_def getSize_def
      getRenderTarget_def GL_COLOR_ATTACHMENT0_EXT_def rt_increaseNumUpdates_def example_defs)

section \<open>Conversion of the color buffer\<close>

lemma short_to_byte_unat: "unat (short_to_byte c) = unat c div 2 ^ 8"
proof -
  have "unat (drop_bit 8 c) = drop_bit 8 (unat c)"
    by (rule unat_drop_bit_eq)
  also have "\<dots> = unat c div 2 ^ 8"
    by (rule drop_bit_eq_div)
  finally have "unat (drop_bit 8 c) = unat c div 2 ^ 8" .
  moreover have "unat c div 2 ^ 8 < 2 ^ 8"
    using unsigned_less [of c, where ?'a = nat] by (simp add: less_mult_imp_div_less)
  ultimately show ?thesis
    by (simp add: short_to_byte_def unsigned_ucast_eq take_bit_nat_eq_self)
qed

text \<open>The exponent of a positive rational number.\<close>

lemma powi_nonneg_eq: "0 \<le> n \<Longrightarrow> (2::rat) powi n = 2 ^ nat n"
  by (simp add: power_int_def)

lemma floor_log2_bounds:
  assumes "0 < x"
  shows "2 powi (floor_log2 x) \<le> x \<and> x < 2 powi (floor_log2 x + 1)"
proof -
  obtain a b where q: "quotient_of x = (a, b)" by (cases "quotient_of x")
  then have b: "0 < b" and x: "x = of_int a / of_int b"
    by (simp_all add: quotient_of_denom_pos quotient_of_div)
  have a: "0 < a"
    using assms b x by (simp add: zero_less_divide_iff)
  let ?la = "bitlen a" and ?lb = "bitlen b"
  have la: "1 \<le> ?la" and lb: "1 \<le> ?lb"
    using a b bitlen_eq_zero_iff [of a] bitlen_eq_zero_iff [of b] bitlen_nonneg [of a]
      bitlen_nonneg [of b] by linarith+
  have ba: "(2::int) ^ nat (?la - 1) \<le> a" "a < 2 ^ nat ?la"
    using bitlen_bounds [OF a] by simp_all
  have bb: "(2::int) ^ nat (?lb - 1) \<le> b" "b < 2 ^ nat ?lb"
    using bitlen_bounds [OF b] by simp_all
  have ra1: "(2::rat) powi (?la - 1) \<le> of_int a"
  proof -
    have "(of_int ((2::int) ^ nat (?la - 1)) :: rat) \<le> of_int a"
      using ba(1) by (simp only: of_int_le_iff)
    then show ?thesis using la by (simp add: powi_nonneg_eq)
  qed
  have ra2: "of_int a < (2::rat) powi ?la"
  proof -
    have "(of_int a :: rat) < of_int ((2::int) ^ nat ?la)"
      using ba(2) by (simp only: of_int_less_iff)
    then show ?thesis using la by (simp add: powi_nonneg_eq)
  qed
  have rb1: "(2::rat) powi (?lb - 1) \<le> of_int b"
  proof -
    have "(of_int ((2::int) ^ nat (?lb - 1)) :: rat) \<le> of_int b"
      using bb(1) by (simp only: of_int_le_iff)
    then show ?thesis using lb by (simp add: powi_nonneg_eq)
  qed
  have rb2: "of_int b < (2::rat) powi ?lb"
  proof -
    have "(of_int b :: rat) < of_int ((2::int) ^ nat ?lb)"
      using bb(2) by (simp only: of_int_less_iff)
    then show ?thesis using lb by (simp add: powi_nonneg_eq)
  qed
  have bpos: "(0::rat) < of_int b" using b by simp
  have apos: "(0::rat) < of_int a" using a by simp
  let ?d = "?la - ?lb"
  have lower: "(2::rat) powi (?d - 1) < x"
  proof -
    have "(2::rat) powi (?d - 1) * of_int b < 2 powi (?d - 1) * 2 powi ?lb"
      using rb2 by (simp add: zero_less_power_int)
    also have "\<dots> = 2 powi (?la - 1)"
      by (simp add: power_int_add [symmetric])
    also have "\<dots> \<le> of_int a" by (rule ra1)
    finally show ?thesis using bpos by (simp add: x pos_less_divide_eq)
  qed
  have upper: "x < (2::rat) powi (?d + 1)"
  proof -
    have "of_int a < (2::rat) powi ?la" by (rule ra2)
    also have "\<dots> = 2 powi (?d + 1) * 2 powi (?lb - 1)"
      by (simp add: power_int_add [symmetric])
    also have "\<dots> \<le> 2 powi (?d + 1) * of_int b"
      using rb1 by (simp add: zero_less_power_int)
    finally show ?thesis using bpos by (simp add: x pos_divide_less_eq)
  qed
  have fl: "floor_log2 x = (if 2 powi ?d \<le> x then ?d else ?d - 1)"
    by (simp add: floor_log2_def q Let_def)
  show ?thesis
  proof (cases "2 powi ?d \<le> x")
    case True
    with upper fl show ?thesis by simp
  next
    case False
    with lower fl show ?thesis by simp
  qed
qed

lemma floor_log2_eq:
  assumes "2 powi e \<le> x" and "x < 2 powi (e + 1)"
  shows "floor_log2 x = e"
proof -
  have pos: "0 < x"
    using assms(1) zero_less_power_int [of "2::rat" e] by linarith
  note b = floor_log2_bounds [OF pos]
  have m: "m < n" if "(2::rat) powi m < 2 powi n" for m n :: int
  proof (rule ccontr)
    assume "\<not> m < n"
    then have "(2::rat) powi n \<le> 2 powi m"
      by (intro power_int_increasing) simp_all
    with that show False by simp
  qed
  have "(2::rat) powi e < 2 powi (floor_log2 x + 1)" using assms(1) b by linarith
  then have 1: "e < floor_log2 x + 1" by (rule m)
  have "(2::rat) powi (floor_log2 x) < 2 powi (e + 1)" using assms(2) b by linarith
  then have 2: "floor_log2 x < e + 1" by (rule m)
  from 1 2 show ?thesis by simp
qed

text \<open>Rounding to an integer, and rounding to a float.\<close>

lemma round_to_even_of_int: "round_to_even (of_int n) = n"
  by (simp add: round_to_even_def)

lemma round_to_even_ge: "of_int n \<le> r \<Longrightarrow> n \<le> round_to_even r"
proof -
  assume "of_int n \<le> r"
  then have "n \<le> \<lfloor>r\<rfloor>" by (simp add: le_floor_iff)
  then show ?thesis unfolding round_to_even_def by (simp split: if_splits)
qed

lemma round_to_even_le: "r \<le> of_int n \<Longrightarrow> round_to_even r \<le> n"
proof (cases "r = of_int n")
  case True
  then show ?thesis by (simp add: round_to_even_of_int)
next
  case False
  assume "r \<le> of_int n"
  with False have "r < of_int n" by simp
  then have "\<lfloor>r\<rfloor> < n" by (simp add: floor_less_iff)
  then show ?thesis unfolding round_to_even_def by (simp split: if_splits)
qed

lemma round_to_even_upper: "of_int (round_to_even r) \<le> r + 1 / 2"
proof -
  have f: "of_int \<lfloor>r\<rfloor> \<le> r" by simp
  show ?thesis
  proof (cases "r - of_int \<lfloor>r\<rfloor> < 1 / 2")
    case True
    then have "(of_int (round_to_even r) :: rat) = of_int \<lfloor>r\<rfloor>"
      by (simp add: round_to_even_def)
    with f show ?thesis by linarith
  next
    case False
    then have "round_to_even r \<le> \<lfloor>r\<rfloor> + 1" by (simp add: round_to_even_def)
    then have "(of_int (round_to_even r) :: rat) \<le> of_int (\<lfloor>r\<rfloor> + 1)"
      by (simp only: of_int_le_iff)
    then have "(of_int (round_to_even r) :: rat) \<le> of_int \<lfloor>r\<rfloor> + 1" by simp
    with False show ?thesis by linarith
  qed
qed

lemma float_round_at:
  assumes "2 powi e \<le> \<bar>x\<bar>" and "\<bar>x\<bar> < 2 powi (e + 1)" and "- 126 \<le> e"
  shows "float_round x = of_int (round_to_even (x / 2 powi (e - 23))) * 2 powi (e - 23)"
proof -
  have "floor_log2 \<bar>x\<bar> = e" using assms(1,2) by (rule floor_log2_eq)
  moreover have "0 < (2::rat) powi e" by (simp add: zero_less_power_int)
  with assms(1) have "0 < \<bar>x\<bar>" by linarith
  then have "x \<noteq> 0" by simp
  moreover note calculation
  ultimately show ?thesis using assms(3) by (simp add: float_round_def float_ulp_def)
qed

text \<open>Below 256 the unit in the last place is a negative power of two, at most 2^-16.\<close>

lemma float_ulp_small:
  assumes "0 < x" and "x < 256"
  shows "\<exists>j\<ge>16. float_ulp x = 1 / 2 ^ j"
proof -
  note b = floor_log2_bounds [OF assms(1)]
  have "(2::rat) powi (floor_log2 x) < 2 powi 8" using b assms(2) by simp
  then have "floor_log2 x < 8"
  proof -
    assume a: "(2::rat) powi (floor_log2 x) < 2 powi 8"
    show ?thesis
    proof (rule ccontr)
      assume "\<not> floor_log2 x < 8"
      then have "(2::rat) powi 8 \<le> 2 powi (floor_log2 x)"
        by (intro power_int_increasing) simp_all
      with a show False by simp
    qed
  qed
  then have le: "max (floor_log2 x) (- 126) - 23 \<le> - 16" by simp
  define j where "j = nat (- (max (floor_log2 x) (- 126) - 23))"
  have j: "16 \<le> j" using le by (simp add: j_def)
  have "max (floor_log2 x) (- 126) - 23 = - int j" using le by (simp add: j_def)
  then have "float_ulp x = 2 powi (- int j)"
    using assms(1) by (simp add: float_ulp_def)
  also have "\<dots> = 1 / 2 ^ j" by (simp add: power_int_minus_divide)
  finally show ?thesis using j by blast
qed

lemma float_round_between:
  assumes "0 \<le> x" and "x \<le> 255"
  shows "of_int \<lfloor>x\<rfloor> \<le> float_round x \<and> float_round x \<le> 255
         \<and> float_round x < of_int \<lfloor>x\<rfloor> + 1 + 1 / 2 ^ 17"
proof (cases "x = 0")
  case True
  then show ?thesis by (simp add: float_round_def)
next
  case False
  with assms have pos: "0 < x" and lt: "x < 256" by simp_all
  from float_ulp_small [OF pos lt] obtain j where j: "16 \<le> j"
    and u: "float_ulp x = 1 / 2 ^ j" by blast
  have fr: "float_round x = of_int (round_to_even (x * 2 ^ j)) / 2 ^ j"
    using False by (simp add: float_round_def u)
  have lo: "of_int \<lfloor>x\<rfloor> \<le> float_round x"
  proof -
    have "of_int \<lfloor>x\<rfloor> * (2::rat) ^ j \<le> x * 2 ^ j"
      by (simp add: mult_right_mono)
    then have "(of_int (\<lfloor>x\<rfloor> * 2 ^ j) :: rat) \<le> x * 2 ^ j" by simp
    then have "\<lfloor>x\<rfloor> * 2 ^ j \<le> round_to_even (x * 2 ^ j)" by (rule round_to_even_ge)
    then have "(of_int (\<lfloor>x\<rfloor> * 2 ^ j) :: rat) \<le> of_int (round_to_even (x * 2 ^ j))"
      by (simp only: of_int_le_iff)
    then show ?thesis by (simp add: fr pos_le_divide_eq)
  qed
  have hi: "float_round x \<le> 255"
  proof -
    have "x * (2::rat) ^ j \<le> 255 * 2 ^ j"
      using assms(2) by (simp add: mult_right_mono)
    then have "x * 2 ^ j \<le> (of_int (255 * 2 ^ j) :: rat)" by simp
    then have "round_to_even (x * 2 ^ j) \<le> 255 * 2 ^ j" by (rule round_to_even_le)
    then have "(of_int (round_to_even (x * 2 ^ j)) :: rat) \<le> of_int (255 * 2 ^ j)"
      by (simp only: of_int_le_iff)
    then show ?thesis by (simp add: fr pos_divide_le_eq)
  qed
  have up: "float_round x < of_int \<lfloor>x\<rfloor> + 1 + 1 / 2 ^ 17"
  proof -
    have "float_round x \<le> (x * 2 ^ j + 1 / 2) / 2 ^ j"
      using round_to_even_upper [of "x * 2 ^ j"] by (simp add: fr divide_right_mono)
    also have "\<dots> = x + 1 / 2 ^ Suc j" by (simp add: add_divide_distrib)
    also have "\<dots> \<le> x + 1 / 2 ^ 17"
    proof -
      have "(2::rat) ^ 17 \<le> 2 ^ Suc j" using j by (intro power_increasing) simp_all
      then show ?thesis by (simp add: frac_le)
    qed
    also have "\<dots> < of_int \<lfloor>x\<rfloor> + 1 + 1 / 2 ^ 17" by simp linarith
    finally show ?thesis .
  qed
  from lo hi up show ?thesis by simp
qed

lemma float_round_near:
  assumes "0 \<le> x" and "x \<le> 255"
  shows "float_round x \<le> x + 1 / 2 ^ 17"
proof (cases "x = 0")
  case True
  then show ?thesis by (simp add: float_round_def)
next
  case False
  with assms have pos: "0 < x" and lt: "x < 256" by simp_all
  from float_ulp_small [OF pos lt] obtain j where j: "16 \<le> j"
    and u: "float_ulp x = 1 / 2 ^ j" by blast
  have fr: "float_round x = of_int (round_to_even (x * 2 ^ j)) / 2 ^ j"
    using False by (simp add: float_round_def u)
  have "float_round x \<le> (x * 2 ^ j + 1 / 2) / 2 ^ j"
    using round_to_even_upper [of "x * 2 ^ j"] by (simp add: fr divide_right_mono)
  also have "\<dots> = x + 1 / 2 ^ Suc j" by (simp add: add_divide_distrib)
  also have "\<dots> \<le> x + 1 / 2 ^ 17"
  proof -
    have "(2::rat) ^ 17 \<le> 2 ^ Suc j" using j by (intro power_increasing) simp_all
    then show ?thesis by (simp add: frac_le)
  qed
  finally show ?thesis .
qed

lemma uint_byte_of_int: "0 \<le> n \<Longrightarrow> n < 256 \<Longrightarrow> uint (word_of_int n :: 8 word) = n"
  by (simp add: uint_word_of_int_eq take_bit_int_eq_self)

lemma float_to_byte_finite:
  assumes d: "float_decode bits = Finite v"
  shows "float_to_byte u bits = word_of_int \<lfloor>float_round (min (max v 0) 1 * 255)\<rfloor>"
    and "v \<le> 0 \<Longrightarrow> float_to_byte u bits = 0"
    and "1 \<le> v \<Longrightarrow> float_to_byte u bits = 255"
proof -
  define p where "p = min (max v 0) 1 * 255"
  have p0: "0 \<le> p" and p255: "p \<le> 255" by (simp_all add: p_def min_def max_def)
  note b = float_round_between [OF p0 p255]
  have f0: "0 \<le> float_round p" using b by (meson of_int_0_le_iff zero_le_floor p0 order_trans)
  have eq: "float_to_byte u bits = word_of_int \<lfloor>float_round p\<rfloor>"
    using f0 b by (simp add: float_to_byte_def d p_def [symmetric])
  show "float_to_byte u bits = word_of_int \<lfloor>float_round (min (max v 0) 1 * 255)\<rfloor>"
    using eq by (simp add: p_def)
  show "float_to_byte u bits = 0" if "v \<le> 0"
  proof -
    have "p = 0" using that by (simp add: p_def min_def max_def)
    then show ?thesis by (simp add: eq float_round_def)
  qed
  show "float_to_byte u bits = 255" if "1 \<le> v"
  proof -
    have "p = 255" using that by (simp add: p_def min_def max_def)
    then have "float_round p = 255" using b by simp
    then show ?thesis by (simp add: eq)
  qed
qed

lemma float_to_byte_special:
  "float_decode bits = PosInf \<Longrightarrow> float_to_byte u bits = 255"
  "float_decode bits = NegInf \<Longrightarrow> float_to_byte u bits = 0"
  "float_decode bits = NaN \<Longrightarrow> float_to_byte u bits = u"
proof -
  have "float_round 255 = 255"
    using float_round_between [of 255] by simp
  then show "float_decode bits = PosInf \<Longrightarrow> float_to_byte u bits = 255"
    by (simp add: float_to_byte_def)
  show "float_decode bits = NegInf \<Longrightarrow> float_to_byte u bits = 0"
    by (simp add: float_to_byte_def float_round_def)
  show "float_decode bits = NaN \<Longrightarrow> float_to_byte u bits = u"
    by (simp add: float_to_byte_def)
qed

lemma int32_mul_exact:
  "- (2 ^ 31) \<le> x * y \<Longrightarrow> x * y < 2 ^ 31 \<Longrightarrow> int32_mul x y = x * y"
proof -
  assume a: "- (2 ^ 31) \<le> x * y" "x * y < 2 ^ 31"
  have "int32_mul x y = sint (word_of_int (x * y) :: 32 word)"
    by (simp add: int32_mul_def)
  also have "\<dots> = signed_take_bit (LENGTH(32) - 1) (x * y)" by (rule sint_sbintrunc')
  also have "\<dots> = signed_take_bit 31 (x * y)" by simp
  also have "\<dots> = x * y" using a by (intro signed_take_bit_int_eq_self) simp_all
  finally show ?thesis .
qed

text \<open>
  The float product of a float in [0,1] with 255 has the whole part of the exact product:
  the product of 255 with a number of 24 bits is farther below the next whole number
  than the rounding can move it.
\<close>

lemma no_integer_crossing:
  fixes M k T :: int
  assumes "0 \<le> M" and "M < 2 ^ 24" and "255 * M < T * 2 ^ 24"
  shows "255 * M < 2 ^ 24 * (T * 2 ^ 24 - 255 * M)"
proof (rule ccontr)
  assume "\<not> 255 * M < 2 ^ 24 * (T * 2 ^ 24 - 255 * M)"
  then have h: "16777216 * (16777216 * T - 255 * M) \<le> 255 * M" by simp
  define j where "j = 16777216 * T - 255 * M"
  define z where "z = M - 65793 * T"
  have j1: "1 \<le> j" using assms(3) by (simp add: j_def)
  have hj: "16777216 * j \<le> 255 * M" using h by (simp add: j_def)
  have M: "M < 16777216" using assms(2) by simp
  have eq: "T - j = 255 * z" by (simp add: j_def z_def)
  have "j < T" using hj j1 by (simp add: j_def)
  moreover have "T - j < 255" using M j1 assms(1) by (simp add: j_def)
  ultimately have "0 < 255 * z" "255 * z < 255" using eq by simp_all
  then show False by simp
qed


lemma powi_less_imp_less:
  fixes m n :: int
  assumes "(2::rat) powi m < 2 powi n"
  shows "m < n"
proof (rule ccontr)
  assume "\<not> m < n"
  then have "(2::rat) powi n \<le> 2 powi m"
    by (intro power_int_increasing) simp_all
  with assms show False by simp
qed

lemma float_decode_fraction:
  assumes d: "float_decode bits = Finite v" and pos: "0 < v" and lt: "v < 1"
  shows "\<exists>(M::nat) n. M < 2 ^ 24 \<and> 24 \<le> n \<and> v = of_nat M / 2 ^ n"
proof -
  define E where "E = unat bits div 2 ^ 23 mod 2 ^ 8"
  define m where "m = unat bits mod 2 ^ 23"
  define mag :: rat where "mag = (if E = 0 then of_nat m * 2 powi (- 149)
                         else of_nat (2 ^ 23 + m) * 2 powi (int E - 150))"
  have m: "m < 2 ^ 23" by (simp add: m_def)
  have mag0: "0 \<le> mag" by (simp add: mag_def zero_le_power_int)
  have E: "E \<noteq> 255"
  proof
    assume "E = 255"
    then have "float_decode bits \<noteq> Finite v"
      unfolding float_decode_def Let_def E_def by simp
    with d show False by simp
  qed
  have "float_decode bits =
          (if E = 255 then (if m \<noteq> 0 then NaN else if 2 ^ 31 \<le> unat bits then NegInf else PosInf)
           else Finite ((if 2 ^ 31 \<le> unat bits then - 1 else 1) * mag))"
    unfolding float_decode_def Let_def E_def m_def mag_def by (rule refl)
  with d E have "v = (if 2 ^ 31 \<le> unat bits then - 1 else 1) * mag"
    by simp
  with pos mag0 have v: "v = mag" by (simp split: if_splits)
  show ?thesis
  proof (cases "E = 0")
    case True
    then have "v = of_nat m / 2 ^ 149" by (simp add: v mag_def power_int_minus_divide)
    moreover have "m < 2 ^ 24" using m by simp
    ultimately show ?thesis by (intro exI [of _ m] exI [of _ 149]) simp
  next
    case False
    then have vm: "v = of_nat (2 ^ 23 + m) * 2 powi (int E - 150)" by (simp add: v mag_def)
    have "E \<le> 126"
    proof (rule ccontr)
      assume "\<not> E \<le> 126"
      then have "(2::rat) powi (- 23) \<le> 2 powi (int E - 150)"
        by (intro power_int_increasing) simp_all
      then have "(2::rat) ^ 23 * 2 powi (- 23) \<le> of_nat (2 ^ 23 + m) * 2 powi (int E - 150)"
        by (intro mult_mono) (simp_all add: zero_le_power_int)
      then have "1 \<le> v" by (simp add: vm power_int_minus_divide)
      with lt show False by simp
    qed
    define n where "n = 150 - E"
    have n: "24 \<le> n" and En: "int E - 150 = - int n" using \<open>E \<le> 126\<close> by (simp_all add: n_def)
    have "v = of_nat (2 ^ 23 + m) / 2 ^ n"
      by (simp add: vm En power_int_minus_divide)
    moreover have "2 ^ 23 + m < 2 ^ 24" using m by simp
    ultimately show ?thesis using n by blast
  qed
qed

lemma float_ulp_le:
  assumes "1 / 2 \<le> x"
  shows "float_ulp x \<le> x / 2 ^ 23"
proof -
  have pos: "0 < x" using assms by simp
  note b = floor_log2_bounds [OF pos]
  have "(2::rat) powi (- 1) < 2 powi (floor_log2 x + 1)"
    using assms b by (simp add: power_int_minus_divide)
  then have "- 1 < floor_log2 x + 1" by (rule powi_less_imp_less)
  then have "max (floor_log2 x) (- 126) = floor_log2 x" by simp
  then have "float_ulp x = 2 powi (floor_log2 x + (- 23))"
    using pos by (simp add: float_ulp_def)
  also have "\<dots> = 2 powi (floor_log2 x) * 2 powi (- 23)"
    by (rule power_int_add) simp
  also have "\<dots> = 2 powi (floor_log2 x) / 2 ^ 23" by (simp add: power_int_minus_divide)
  also have "\<dots> \<le> x / 2 ^ 23" using b by (simp add: divide_right_mono)
  finally show ?thesis .
qed

lemma round_to_even_below:
  assumes "r < of_int n + 1 / 2"
  shows "round_to_even r \<le> n"
proof (cases "r - of_int \<lfloor>r\<rfloor> < 1 / 2")
  case True
  have "of_int \<lfloor>r\<rfloor> \<le> r" by (rule of_int_floor_le)
  with assms have "(of_int \<lfloor>r\<rfloor> :: rat) < of_int n + 1" by linarith
  then have "(of_int \<lfloor>r\<rfloor> :: rat) < of_int (n + 1)" by simp
  then have "\<lfloor>r\<rfloor> < n + 1" by (simp only: of_int_less_iff)
  with True show ?thesis by (simp add: round_to_even_def)
next
  case False
  with assms have "(of_int \<lfloor>r\<rfloor> :: rat) < of_int n" by linarith
  then have "\<lfloor>r\<rfloor> < n" by (simp only: of_int_less_iff)
  then have "\<lfloor>r\<rfloor> + 1 \<le> n" by simp
  moreover have "round_to_even r \<le> \<lfloor>r\<rfloor> + 1" by (simp add: round_to_even_def)
  ultimately show ?thesis by (rule order_trans [rotated])
qed

lemma float_round_below:
  assumes half: "1 / 2 \<le> p" and k: "p < of_int k" and k255: "k \<le> 255"
    and gap: "p / 2 ^ 24 < of_int k - p"
  shows "float_round p < of_int k"
proof -
  have pos: "0 < p" using half by simp
  have "(of_int k :: rat) \<le> of_int 255" using k255 by (simp only: of_int_le_iff)
  with k have "p < 256" by simp
  with float_ulp_small [OF pos] obtain j where j: "16 \<le> j"
    and u: "float_ulp p = 1 / 2 ^ j" by blast
  have fr: "float_round p = of_int (round_to_even (p * 2 ^ j)) / 2 ^ j"
    using pos by (simp add: float_round_def u)
  have "1 / 2 ^ j / 2 \<le> p / 2 ^ 23 / 2"
    using float_ulp_le [OF half] by (simp only: u divide_right_mono zero_le_numeral)
  also have "\<dots> = p / 2 ^ 24" by simp
  finally have "p + 1 / 2 ^ j / 2 < of_int k" using gap by simp
  then have "(p + 1 / 2 ^ j / 2) * 2 ^ j < of_int k * 2 ^ j"
    by (simp only: mult_less_cancel_right_pos zero_less_power zero_less_numeral)
  then have "p * 2 ^ j < of_int (k * 2 ^ j - 1) + 1 / 2"
    by (simp add: distrib_right)
  then have "round_to_even (p * 2 ^ j) \<le> k * 2 ^ j - 1" by (rule round_to_even_below)
  then have "(of_int (round_to_even (p * 2 ^ j)) :: rat) \<le> of_int (k * 2 ^ j - 1)"
    by (simp only: of_int_le_iff)
  then have "float_round p \<le> of_int (k * 2 ^ j - 1) / 2 ^ j"
    by (simp only: fr divide_right_mono zero_le_power zero_le_numeral)
  also have "\<dots> = of_int k - 1 / 2 ^ j" by (simp add: diff_divide_distrib)
  also have "\<dots> < of_int k" by simp
  finally show ?thesis .
qed

lemma float_round_floor:
  assumes d: "float_decode bits = Finite v" and pos: "0 < v" and lt: "v < 1"
  shows "\<lfloor>float_round (v * 255)\<rfloor> = \<lfloor>v * 255\<rfloor>"
proof -
  define p where "p = v * 255"
  define k where "k = \<lfloor>p\<rfloor> + 1"
  have p0: "0 \<le> p" and p255: "p \<le> 255" and plt: "p < 255" using pos lt by (simp_all add: p_def)
  have pk: "p < of_int k" using floor_correct [of p] by (simp add: k_def)
  have k255: "k \<le> 255" using plt by (simp add: k_def floor_less_iff)
  have k1: "1 \<le> k" using p0 by (simp add: k_def)
  have lower: "of_int \<lfloor>p\<rfloor> \<le> float_round p" using float_round_between [OF p0 p255] by simp
  have upper: "float_round p < of_int k"
  proof (cases "p < 1 / 2")
    case True
    have "float_round p \<le> p + 1 / 2 ^ 17" by (rule float_round_near [OF p0 p255])
    also have "\<dots> < 1" using True by simp
    also have "\<dots> \<le> of_int k" using k1 by simp
    finally show ?thesis .
  next
    case False
    then have half: "1 / 2 \<le> p" by simp
    from float_decode_fraction [OF d pos lt] obtain M :: nat and n where
      M: "M < 2 ^ 24" and n: "24 \<le> n" and v: "v = of_nat M / 2 ^ n" by blast
    define T where "T = k * 2 ^ (n - 24)"
    have "(2::int) ^ ((n - 24) + 24) = 2 ^ (n - 24) * 2 ^ 24" by (rule power_add)
    moreover have "(n - 24) + 24 = n" using n by simp
    ultimately have n24: "(2::int) ^ n = 2 ^ (n - 24) * 2 ^ 24" by simp
    have T: "T * 2 ^ 24 = k * 2 ^ n" by (simp add: T_def n24)
    have pq: "p * 2 ^ n = of_int (255 * int M)" by (simp add: p_def v)
    have "p * 2 ^ n < of_int k * 2 ^ n"
      using pk by (simp only: mult_less_cancel_right_pos zero_less_power zero_less_numeral)
    then have "(of_int (255 * int M) :: rat) < of_int (k * 2 ^ n)" by (simp add: pq)
    then have "255 * int M < k * 2 ^ n" by (simp only: of_int_less_iff)
    then have "255 * int M < T * 2 ^ 24" by (simp only: T)
    moreover have "int M < 2 ^ 24" using M by (simp add: of_nat_less_numeral_power_cancel_iff)
    ultimately have "255 * int M < 2 ^ 24 * (T * 2 ^ 24 - 255 * int M)"
      by (intro no_integer_crossing) simp_all
    then have "255 * int M < 2 ^ 24 * (k * 2 ^ n - 255 * int M)" by (simp only: T)
    then have "(of_int (255 * int M) :: rat) < of_int (2 ^ 24 * (k * 2 ^ n - 255 * int M))"
      by (simp only: of_int_less_iff)
    then have "p * 2 ^ n < 2 ^ 24 * (of_int k * 2 ^ n - p * 2 ^ n)"
      by (simp add: pq)
    then have "p * 2 ^ n < (2 ^ 24 * (of_int k - p)) * 2 ^ n"
      by (simp add: algebra_simps)
    then have "p < 2 ^ 24 * (of_int k - p)"
      by (simp only: mult_less_cancel_right_pos zero_less_power zero_less_numeral)
    then have gap: "p / 2 ^ 24 < of_int k - p" by (simp add: pos_divide_less_eq mult.commute)
    show ?thesis using half pk k255 gap by (rule float_round_below)
  qed
  have "\<lfloor>float_round p\<rfloor> = \<lfloor>p\<rfloor>"
    using lower upper by (intro floor_unique) (simp_all add: k_def)
  then show ?thesis by (simp add: p_def)
qed

lemma float_to_byte_exact:
  assumes d: "float_decode bits = Finite v"
  shows "uint (float_to_byte u bits) = \<lfloor>min (max v 0) 1 * 255\<rfloor>"
proof -
  consider "v \<le> 0" | "1 \<le> v" | "0 < v" "v < 1" by linarith
  then show ?thesis
  proof cases
    case 1
    then show ?thesis using float_to_byte_finite(2) [OF d, of u] by (simp add: min_def max_def)
  next
    case 2
    then show ?thesis using float_to_byte_finite(3) [OF d, of u] by (simp add: min_def max_def)
  next
    case 3
    then have c: "min (max v 0) 1 = v" by (simp add: min_def max_def)
    have p0: "0 \<le> v * 255" and p255: "v * 255 \<le> 255" using 3 by simp_all
    have f: "\<lfloor>float_round (v * 255)\<rfloor> = \<lfloor>v * 255\<rfloor>" using d 3 by (rule float_round_floor)
    have "0 \<le> \<lfloor>v * 255\<rfloor>" using p0 by simp
    moreover have "\<lfloor>v * 255\<rfloor> < 256" using p255 by (simp add: floor_less_iff)
    ultimately have "uint (word_of_int \<lfloor>v * 255\<rfloor> :: 8 word) = \<lfloor>v * 255\<rfloor>"
      by (rule uint_byte_of_int)
    then show ?thesis using float_to_byte_finite(1) [OF d, of u] by (simp add: c f)
  qed
qed

lemma round_to_even_near:
  assumes "of_int n - 1 / 2 < r" and "r < of_int n + 1 / 2"
  shows "round_to_even r = n"
proof (cases "of_int n \<le> r")
  case True
  then have "\<lfloor>r\<rfloor> = n" using assms(2) by (intro floor_unique) simp_all
  then show ?thesis using assms(2) by (simp add: round_to_even_def)
next
  case False
  then have f: "\<lfloor>r\<rfloor> = n - 1" using assms(1) by (intro floor_unique) simp_all
  have "1 / 2 < r - of_int (n - 1)" using assms(1) by simp
  then show ?thesis using False by (simp add: round_to_even_def f)
qed

text \<open>
  Some floats: 0.5, 2, -1 and 1; the float next to a third from above and the one from
  below; an infinity and a NaN. The products of the two thirds with 255 are rounded, the
  first one to 85.
\<close>

lemma float_decode_examples:
  "float_decode 0x3F000000 = Finite (1 / 2)"
  "float_decode 0x40000000 = Finite 2"
  "float_decode 0xBF800000 = Finite (- 1)"
  "float_decode 0x3F800000 = Finite 1"
  "float_decode 0x3EAAAAAB = Finite (11184811 / 2 ^ 25)"
  "float_decode 0x3EAAAAAA = Finite (11184810 / 2 ^ 25)"
  "float_decode 0x7F800000 = PosInf"
  "float_decode 0xFF800000 = NegInf"
  "float_decode 0x7FC00000 = NaN"
  by (simp_all add: float_decode_def Let_def power_int_minus_divide)

lemma float_round_examples:
  "float_round (255 / 2) = 255 / 2"
  "float_round (11184811 / 2 ^ 25 * 255) = 85"
  "float_round (11184810 / 2 ^ 25 * 255) = 11141119 / 2 ^ 17"
proof -
  show "float_round (255 / 2) = 255 / 2"
    using float_round_at [of 6 "255 / 2"] round_to_even_of_int [of 16711680]
    by (simp add: power_int_minus_divide)
  show "float_round (11184811 / 2 ^ 25 * 255) = 85"
    using float_round_at [of 6 "11184811 / 2 ^ 25 * 255"]
      round_to_even_near [of 11141120 "2852126805 / 256"]
    by (simp add: power_int_minus_divide)
  show "float_round (11184810 / 2 ^ 25 * 255) = 11141119 / 2 ^ 17"
    using float_round_at [of 6 "11184810 / 2 ^ 25 * 255"]
      round_to_even_near [of 11141119 "2852126550 / 256"]
    by (simp add: power_int_minus_divide)
qed

lemma floor_examples:
  "\<lfloor>255 / 2 :: rat\<rfloor> = 127"
  "\<lfloor>11141119 / 2 ^ 17 :: rat\<rfloor> = 84"
  by (rule floor_unique; simp)+

text \<open>
  Claim C8. \<open>readColorBuffer\<close> on a color texture whose format is not GL_RGBA raises the
  exception that says so. For GL_RGBA, when the download (and for the last two the
  allocation) succeeds, and with \<open>n\<close> the 32 bit product \<open>size.x * size.y\<close>, which is
  the product itself when that is a 32 bit number: unsigned bytes are returned as they
  are; of unsigned shorts, each channel of the first \<open>n\<close> pixels is shifted right by 8
  bits, which is its value divided by 256; of floats, each channel of the first \<open>n\<close>
  pixels is clamped to [0,1], multiplied by 255 and stored as a byte. For a float channel
  of finite value \<open>v\<close>, with \<open>c\<close> the number \<open>v\<close> clamped to [0,1], the byte is the
  whole part of the float product of \<open>c\<close> and 255, and that is the whole part of the
  exact product \<open>255 * c\<close>; it is 0 for \<open>v \<le> 0\<close> and 255 for \<open>1 \<le> v\<close>. Plus
  infinity gives 255 and minus infinity 0; what a NaN gives is left open.
\<close>

theorem C8_readColorBuffer_conversion:
  "(tex_format tex \<noteq> GL_RGBA \<longrightarrow>
      readColorBuffer u downloadOk allocOk (Some tex) size2 =
        Inl (VoreenException
          ''RenderPort::readColorBuffer(): Saving render port to file currently only supported for GL_RGBA format''))
   \<and> (tex_format tex = GL_RGBA \<and> downloadOk \<and> tex_texels tex = GL_UNSIGNED_BYTE bytes \<longrightarrow>
      readColorBuffer u downloadOk allocOk (Some tex) size2 = Inr bytes)
   \<and> (tex_format tex = GL_RGBA \<and> downloadOk \<and> allocOk
        \<and> tex_texels tex = GL_UNSIGNED_SHORT shorts
        \<and> 0 \<le> int32_mul (fst size2) (snd size2)
        \<and> nat (int32_mul (fst size2) (snd size2)) \<le> length shorts \<longrightarrow>
      readColorBuffer u downloadOk allocOk (Some tex) size2 =
        Inr (map (\<lambda>(x, y, z, a). (ucast (drop_bit 8 x), ucast (drop_bit 8 y),
                                   ucast (drop_bit 8 z), ucast (drop_bit 8 a)))
               (take (nat (int32_mul (fst size2) (snd size2))) shorts)))
   \<and> unat (ucast (drop_bit 8 (c :: 16 word)) :: 8 word) = unat c div 2 ^ 8
   \<and> (tex_format tex = GL_RGBA \<and> downloadOk \<and> allocOk
        \<and> tex_texels tex = GL_FLOAT floats
        \<and> 0 \<le> int32_mul (fst size2) (snd size2)
        \<and> nat (int32_mul (fst size2) (snd size2)) \<le> length floats \<longrightarrow>
      readColorBuffer u downloadOk allocOk (Some tex) size2 =
        Inr (map (\<lambda>(x, y, z, a). (float_to_byte u x, float_to_byte u y,
                                   float_to_byte u z, float_to_byte u a))
               (take (nat (int32_mul (fst size2) (snd size2))) floats)))
   \<and> (float_decode bits = Finite v \<longrightarrow>
        float_to_byte u bits = word_of_int \<lfloor>float_round (min (max v 0) 1 * 255)\<rfloor>
        \<and> uint (float_to_byte u bits) = \<lfloor>min (max v 0) 1 * 255\<rfloor>
        \<and> (v \<le> 0 \<longrightarrow> float_to_byte u bits = 0)
        \<and> (1 \<le> v \<longrightarrow> float_to_byte u bits = 255))
   \<and> (float_decode bits = PosInf \<longrightarrow> float_to_byte u bits = 255)
   \<and> (float_decode bits = NegInf \<longrightarrow> float_to_byte u bits = 0)
   \<and> (float_decode bits = NaN \<longrightarrow> float_to_byte u bits = u)
   \<and> (- (2 ^ 31) \<le> fst size2 * snd size2 \<and> fst size2 * snd size2 < 2 ^ 31 \<longrightarrow>
        int32_mul (fst size2) (snd size2) = fst size2 * snd size2)"
proof -
  have m1: "map_vec4 short_to_byte = (\<lambda>(x, y, z, a). (ucast (drop_bit 8 x), ucast (drop_bit 8 y),
                                   ucast (drop_bit 8 z), ucast (drop_bit 8 a)))"
    by (auto simp add: map_vec4_def short_to_byte_def fun_eq_iff)
  have m2: "map_vec4 (float_to_byte u) = (\<lambda>(x, y, z, a). (float_to_byte u x, float_to_byte u y,
                                   float_to_byte u z, float_to_byte u a))"
    by (auto simp add: map_vec4_def fun_eq_iff)
  have a: "tex_format tex \<noteq> GL_RGBA \<longrightarrow>
      readColorBuffer u downloadOk allocOk (Some tex) size2 =
        Inl (VoreenException
          ''RenderPort::readColorBuffer(): Saving render port to file currently only supported for GL_RGBA format'')"
    by (simp add: readColorBuffer_def)
  have b: "tex_format tex = GL_RGBA \<and> downloadOk \<and> tex_texels tex = GL_UNSIGNED_BYTE bytes \<longrightarrow>
      readColorBuffer u downloadOk allocOk (Some tex) size2 = Inr bytes"
    by (simp add: readColorBuffer_def)
  have c: "tex_format tex = GL_RGBA \<and> downloadOk \<and> allocOk
        \<and> tex_texels tex = GL_UNSIGNED_SHORT shorts
        \<and> 0 \<le> int32_mul (fst size2) (snd size2)
        \<and> nat (int32_mul (fst size2) (snd size2)) \<le> length shorts \<longrightarrow>
      readColorBuffer u downloadOk allocOk (Some tex) size2 =
        Inr (map (\<lambda>(x, y, z, a). (ucast (drop_bit 8 x), ucast (drop_bit 8 y),
                                   ucast (drop_bit 8 z), ucast (drop_bit 8 a)))
               (take (nat (int32_mul (fst size2) (snd size2))) shorts))"
    by (simp add: readColorBuffer_def convert_pixels_def m1 not_less)
  have d: "unat (ucast (drop_bit 8 (c :: 16 word)) :: 8 word) = unat c div 2 ^ 8"
    using short_to_byte_unat [of c] by (simp add: short_to_byte_def)
  have e: "tex_format tex = GL_RGBA \<and> downloadOk \<and> allocOk
        \<and> tex_texels tex = GL_FLOAT floats
        \<and> 0 \<le> int32_mul (fst size2) (snd size2)
        \<and> nat (int32_mul (fst size2) (snd size2)) \<le> length floats \<longrightarrow>
      readColorBuffer u downloadOk allocOk (Some tex) size2 =
        Inr (map (\<lambda>(x, y, z, a). (float_to_byte u x, float_to_byte u y,
                                   float_to_byte u z, float_to_byte u a))
               (take (nat (int32_mul (fst size2) (snd size2))) floats))"
    by (simp add: readColorBuffer_def convert_pixels_def m2 not_less)
  have f: "float_decode bits = Finite v \<longrightarrow>
        float_to_byte u bits = word_of_int \<lfloor>float_round (min (max v 0) 1 * 255)\<rfloor>
        \<and> uint (float_to_byte u bits) = \<lfloor>min (max v 0) 1 * 255\<rfloor>
        \<and> (v \<le> 0 \<longrightarrow> float_to_byte u bits = 0)
        \<and> (1 \<le> v \<longrightarrow> float_to_byte u bits = 255)"
    using float_to_byte_finite [of bits v u] float_to_byte_exact [of bits v u] by blast
  have g: "float_decode bits = PosInf \<longrightarrow> float_to_byte u bits = 255"
    and h: "float_decode bits = NegInf \<longrightarrow> float_to_byte u bits = 0"
    and i: "float_decode bits = NaN \<longrightarrow> float_to_byte u bits = u"
    using float_to_byte_special [of bits u] by blast+
  have j: "- (2 ^ 31) \<le> fst size2 * snd size2 \<and> fst size2 * snd size2 < 2 ^ 31 \<longrightarrow>
        int32_mul (fst size2) (snd size2) = fst size2 * snd size2"
    using int32_mul_exact [of "fst size2" "snd size2"] by blast
  show ?thesis
    apply (intro conjI)
             apply (rule a)
            apply (rule b)
           apply (rule c)
          apply (rule d)
         apply (rule e)
        apply (rule f)
       apply (rule g)
      apply (rule h)
     apply (rule i)
    apply (rule j)
    done
qed

theorem C8_readColorBuffer_conversion_witness:
  "readColorBuffer 7 True True
      (Some \<lparr>tex_format = GL_OTHER_FORMAT 6407, tex_texels = GL_UNSIGNED_BYTE [(1, 2, 3, 4)]\<rparr>)
      (1, 1)
     = Inl (VoreenException
          ''RenderPort::readColorBuffer(): Saving render port to file currently only supported for GL_RGBA format'')
   \<and> readColorBuffer 7 True True
      (Some \<lparr>tex_format = GL_RGBA, tex_texels = GL_UNSIGNED_BYTE [(1, 2, 3, 4)]\<rparr>) (1, 1)
     = Inr [(1, 2, 3, 4)]
   \<and> readColorBuffer 7 True True
      (Some \<lparr>tex_format = GL_RGBA,
             tex_texels = GL_UNSIGNED_SHORT [(0xFFFF, 0x1234, 0x00FF, 0x0100)]\<rparr>) (1, 1)
     = Inr [(0xFF, 0x12, 0, 1)]
   \<and> readColorBuffer 7 True True
      (Some \<lparr>tex_format = GL_RGBA,
             tex_texels = GL_FLOAT [(0x3F000000, 0x40000000, 0xBF800000, 0x3F800000),
                                    (0x3EAAAAAB, 0x3EAAAAAA, 0x7F800000, 0x7FC00000)]\<rparr>) (2, 1)
     = Inr [(127, 255, 0, 255), (85, 84, 255, 7)]
   \<and> readColorBuffer 7 True True
      (Some \<lparr>tex_format = GL_RGBA,
             tex_texels = GL_FLOAT [(0x3F000000, 0x40000000, 0xBF800000, 0x3F800000)]\<rparr>)
      (65536, 65536)
     = Inr []
   \<and> float_to_byte 7 0xFF800000 = 0
   \<and> uint (float_to_byte 7 0x3EAAAAAA) = 84
   \<and> int32_mul 640 480 = 307200"
proof -
  note t = C8_readColorBuffer_conversion [where u = 7 and downloadOk = True
      and allocOk = True]
  have one: "int32_mul 1 1 = 1" and two: "int32_mul 2 1 = 2"
    and wrap: "int32_mul 65536 65536 = 0"
    by (simp_all add: int32_mul_def)
  have a: "readColorBuffer 7 True True
      (Some \<lparr>tex_format = GL_OTHER_FORMAT 6407, tex_texels = GL_UNSIGNED_BYTE [(1, 2, 3, 4)]\<rparr>)
      (1, 1)
     = Inl (VoreenException
          ''RenderPort::readColorBuffer(): Saving render port to file currently only supported for GL_RGBA format'')"
    using t [where tex = "\<lparr>tex_format = GL_OTHER_FORMAT 6407,
                           tex_texels = GL_UNSIGNED_BYTE [(1, 2, 3, 4)]\<rparr>"
               and ?size2.0 = "(1, 1)"]
    by simp
  have b: "readColorBuffer 7 True True
      (Some \<lparr>tex_format = GL_RGBA, tex_texels = GL_UNSIGNED_BYTE [(1, 2, 3, 4)]\<rparr>) (1, 1)
     = Inr [(1, 2, 3, 4)]"
    using t [where tex = "\<lparr>tex_format = GL_RGBA, tex_texels = GL_UNSIGNED_BYTE [(1, 2, 3, 4)]\<rparr>"
               and bytes = "[(1, 2, 3, 4)]" and ?size2.0 = "(1, 1)"]
    by simp
  have c: "readColorBuffer 7 True True
      (Some \<lparr>tex_format = GL_RGBA,
             tex_texels = GL_UNSIGNED_SHORT [(0xFFFF, 0x1234, 0x00FF, 0x0100)]\<rparr>) (1, 1)
     = Inr [(0xFF, 0x12, 0, 1)]"
    using t [where tex = "\<lparr>tex_format = GL_RGBA,
             tex_texels = GL_UNSIGNED_SHORT [(0xFFFF, 0x1234, 0x00FF, 0x0100)]\<rparr>"
             and shorts = "[(0xFFFF, 0x1234, 0x00FF, 0x0100)]" and ?size2.0 = "(1, 1)"]
    by (simp add: one drop_bit_eq_div)
  have k1: "float_to_byte 7 0x3F000000 = 127"
  proof -
    from t [where bits = "0x3F000000" and v = "1 / 2"] float_decode_examples(1)
    have "float_to_byte 7 0x3F000000
            = word_of_int \<lfloor>float_round (min (max (1 / 2) 0) 1 * 255)\<rfloor>"
      by blast
    then show ?thesis by (simp add: float_round_examples floor_examples)
  qed
  have k2: "float_to_byte 7 0x40000000 = 255"
  proof -
    have "(1::rat) \<le> 2" by simp
    with t [where bits = "0x40000000" and v = 2] float_decode_examples(2)
    show ?thesis by blast
  qed
  have k3: "float_to_byte 7 0xBF800000 = 0"
  proof -
    have "(- 1::rat) \<le> 0" by simp
    with t [where bits = "0xBF800000" and v = "- 1"] float_decode_examples(3)
    show ?thesis by blast
  qed
  have k4: "float_to_byte 7 0x3F800000 = 255"
  proof -
    have "(1::rat) \<le> 1" by simp
    with t [where bits = "0x3F800000" and v = 1] float_decode_examples(4)
    show ?thesis by blast
  qed
  have k5: "float_to_byte 7 0x3EAAAAAB = 85"
  proof -
    from t [where bits = "0x3EAAAAAB" and v = "11184811 / 2 ^ 25"] float_decode_examples(5)
    have "float_to_byte 7 0x3EAAAAAB
            = word_of_int \<lfloor>float_round (min (max (11184811 / 2 ^ 25) 0) 1 * 255)\<rfloor>"
      by blast
    moreover have "min (max (11184811 / 2 ^ 25) 0) 1 * 255 = (11184811 / 2 ^ 25 * 255 :: rat)"
      by simp
    ultimately show ?thesis by (simp only: float_round_examples(2)) simp
  qed
  have k6: "float_to_byte 7 0x3EAAAAAA = 84"
  proof -
    from t [where bits = "0x3EAAAAAA" and v = "11184810 / 2 ^ 25"] float_decode_examples(6)
    have "float_to_byte 7 0x3EAAAAAA
            = word_of_int \<lfloor>float_round (min (max (11184810 / 2 ^ 25) 0) 1 * 255)\<rfloor>"
      by blast
    moreover have "min (max (11184810 / 2 ^ 25) 0) 1 * 255 = (11184810 / 2 ^ 25 * 255 :: rat)"
      by simp
    ultimately show ?thesis by (simp only: float_round_examples(3) floor_examples(2)) simp
  qed
  have k7: "float_to_byte 7 0x7F800000 = 255"
    using t [where bits = "0x7F800000"] float_decode_examples(7) by blast
  have k8: "float_to_byte 7 0x7FC00000 = 7"
    using t [where bits = "0x7FC00000"] float_decode_examples(9) by blast
  have k9: "float_to_byte 7 0xFF800000 = 0"
    using t [where bits = "0xFF800000"] float_decode_examples(8) by blast
  have d: "readColorBuffer 7 True True
      (Some \<lparr>tex_format = GL_RGBA,
             tex_texels = GL_FLOAT [(0x3F000000, 0x40000000, 0xBF800000, 0x3F800000),
                                    (0x3EAAAAAB, 0x3EAAAAAA, 0x7F800000, 0x7FC00000)]\<rparr>) (2, 1)
     = Inr [(127, 255, 0, 255), (85, 84, 255, 7)]"
    using t [where tex = "\<lparr>tex_format = GL_RGBA,
             tex_texels = GL_FLOAT [(0x3F000000, 0x40000000, 0xBF800000, 0x3F800000),
                                    (0x3EAAAAAB, 0x3EAAAAAA, 0x7F800000, 0x7FC00000)]\<rparr>"
             and floats = "[(0x3F000000, 0x40000000, 0xBF800000, 0x3F800000),
                            (0x3EAAAAAB, 0x3EAAAAAA, 0x7F800000, 0x7FC00000)]"
             and ?size2.0 = "(2, 1)"]
    by (simp add: two k1 k2 k3 k4 k5 k6 k7 k8)
  have e: "readColorBuffer 7 True True
      (Some \<lparr>tex_format = GL_RGBA,
             tex_texels = GL_FLOAT [(0x3F000000, 0x40000000, 0xBF800000, 0x3F800000)]\<rparr>)
      (65536, 65536)
     = Inr []"
    using t [where tex = "\<lparr>tex_format = GL_RGBA,
             tex_texels = GL_FLOAT [(0x3F000000, 0x40000000, 0xBF800000, 0x3F800000)]\<rparr>"
             and floats = "[(0x3F000000, 0x40000000, 0xBF800000, 0x3F800000)]"
             and ?size2.0 = "(65536, 65536)"]
    by (simp add: wrap)
  have x: "uint (float_to_byte 7 0x3EAAAAAA) = 84"
  proof -
    from t [where bits = "0x3EAAAAAA" and v = "11184810 / 2 ^ 25"] float_decode_examples(6)
    have "uint (float_to_byte 7 0x3EAAAAAA) = \<lfloor>min (max (11184810 / 2 ^ 25) 0) 1 * 255 :: rat\<rfloor>"
      by blast
    moreover have "min (max (11184810 / 2 ^ 25) 0) 1 * 255 = (11184810 / 2 ^ 25 * 255 :: rat)"
      by simp
    moreover have "\<lfloor>11184810 / 2 ^ 25 * 255 :: rat\<rfloor> = 84"
      by (rule floor_unique) simp_all
    ultimately show ?thesis by (simp only:)
  qed
  have f: "int32_mul 640 480 = 307200"
    using t [where ?size2.0 = "(640, 480)"] by simp
  show ?thesis
    apply (intro conjI)
           apply (rule a)
          apply (rule b)
         apply (rule c)
        apply (rule d)
       apply (rule e)
      apply (rule k9)
     apply (rule x)
    apply (rule f)
    done
qed

section \<open>Propagation of a size origin\<close>






































section \<open>Connecting an outport to an inport\<close>

lemma addConnection_field:
  "isOutport (ports (addConnection p q st) ! r) = isOutport (ports st ! r)"
  "sizeOrigin (ports (addConnection p q st) ! r) = sizeOrigin (ports st ! r)"
  "portSize (ports (addConnection p q st) ! r) = portSize (ports st ! r)"
  "processor (ports (addConnection p q st) ! r) = processor (ports st ! r)"
  "events (addConnection p q st) = events st"
  "socCalls (addConnection p q st) = socCalls st"
  "socAdopted (addConnection p q st) = socAdopted st"
  by (simp_all add: addConnection_def setPort_def nth_list_update_field)

text \<open>
  Claim C6, as the code has it. When the base connection succeeds, \<open>connect\<close> returns
  true; it calls \<open>sizeOriginChanged\<close> on the connecting outport with the size origin of
  the newly connected inport, which notifies the outport's processor and clears the
  outport's valid flag; the inport's own size origin is not written. If the inport
  carries a size origin, the outport's processor is then asked \<open>portResized\<close> for the
  outport with the inport's size.
\<close>

theorem C6_connect_notifies_outport:
  assumes "Port_testConnectivity (ports st) p q"
  shows "\<exists>st'. connect (Suc fuel) p q st = Some (True, st')
           \<and> ports st' =
               (ports (addConnection q p (addConnection p q st)))
                 [p := (ports (addConnection q p (addConnection p q st)) ! p)
                         \<lparr>validResult := False\<rparr>]
           \<and> events st' =
               events st @ [ProcSizeOriginChanged (processor (ports st ! p)) p]
                 @ (if sizeOrigin (ports st ! q) \<noteq> 0
                    then [ProcPortResized (processor (ports st ! p)) p (portSize (ports st ! q))]
                    else [])
           \<and> sizeOrigin (ports st' ! q) = sizeOrigin (ports st ! q)
           \<and> socCalls st' = Suc (socCalls st) \<and> socAdopted st' = socAdopted st"
proof -
  let ?st1 = "addConnection q p (addConnection p q st)"
  let ?st2 = "soc_outport p (soc_enter ?st1)"
  have pq: "p \<noteq> q" and po: "isOutport (ports st ! p)" and qi: "\<not> isOutport (ports st ! q)"
    using assms by (simp_all add: Port_testConnectivity_def isInport_def)
  have c: "Port_connect p q st = (True, ?st1)"
    using assms by (simp add: Port_connect_def)
  have g1: "getSizeOrigin (Suc fuel) (ports ?st1) q = Some (sizeOrigin (ports st ! q))"
    using qi by (simp add: addConnection_field)
  have s: "sizeOriginChanged (Suc fuel) p (sizeOrigin (ports st ! q)) ?st1 = Some ?st2"
    using po by (simp add: addConnection_field)
  have f2: "isOutport (ports ?st2 ! q) = isOutport (ports st ! q)"
    "sizeOrigin (ports ?st2 ! q) = sizeOrigin (ports st ! q)"
    "portSize (ports ?st2 ! q) = portSize (ports st ! q)"
    "processor (ports ?st2 ! p) = processor (ports st ! p)"
    using pq
    by (simp_all add: soc_outport_def soc_enter_def setPort_def emit_def nth_list_update_field
        addConnection_field)
  have g2: "getSizeOrigin (Suc fuel) (ports ?st2) q = Some (sizeOrigin (ports st ! q))"
    using qi f2 by simp
  have r: "connect (Suc fuel) p q st =
      Some (True, if sizeOrigin (ports st ! q) \<noteq> 0
                  then emit (ProcPortResized (processor (ports st ! p)) p
                               (portSize (ports st ! q))) ?st2
                  else ?st2)"
    unfolding connect_def c using g1 s g2 f2
    by (simp del: getSizeOrigin.simps sizeOriginChanged.simps)
  have e2: "events ?st2 = events st @ [ProcSizeOriginChanged (processor (ports st ! p)) p]"
    "ports ?st2 = (ports ?st1)[p := (ports ?st1 ! p)\<lparr>validResult := False\<rparr>]"
    "socCalls ?st2 = Suc (socCalls st)"
    "socAdopted ?st2 = socAdopted st"
    by (simp_all add: soc_outport_def soc_enter_def setPort_def emit_def addConnection_field)
  show ?thesis
    unfolding r using e2 f2 by (simp add: emit_def)
qed

theorem C6_connect_notifies_outport_witness:
  "Port_testConnectivity (ports exampleBeforeConnect) 0 1 = False
   \<and> Port_testConnectivity (ports exampleBeforeConnect) 0 2
   \<and> (\<exists>st'. connect 2 0 2 exampleBeforeConnect = Some (True, st')
         \<and> events st' = [ProcSizeOriginChanged 0 0]
         \<and> sizeOrigin (ports st' ! 2) = 0)
   \<and> Port_testConnectivity (ports (network_of [outportWithTarget [], inportWith 5 []])) 0 1
   \<and> (\<exists>st'. connect 2 0 1 (network_of [outportWithTarget [], inportWith 5 []])
                = Some (True, st')
         \<and> events st' = [ProcSizeOriginChanged 0 0, ProcPortResized 0 0 (128, 128)]
         \<and> sizeOrigin (ports st' ! 1) = 5)"
proof -
  let ?n = "network_of [outportWithTarget [], inportWith 5 []]"
  have a: "Port_testConnectivity (ports exampleBeforeConnect) 0 1 = False"
    by (simp add: exampleBeforeConnect_def Port_testConnectivity_def example_defs)
  have h: "Port_testConnectivity (ports exampleBeforeConnect) 0 2"
    by (simp add: exampleBeforeConnect_def Port_testConnectivity_def isInport_def
        isConnected_def example_defs)
  have h2: "Port_testConnectivity (ports ?n) 0 1"
    by (simp add: Port_testConnectivity_def isInport_def isConnected_def example_defs)
  have v: "events exampleBeforeConnect = []" "processor (ports exampleBeforeConnect ! 0) = 0"
    "sizeOrigin (ports exampleBeforeConnect ! 2) = 0"
    by (simp_all add: exampleBeforeConnect_def example_defs)
  have v2: "events ?n = []" "processor (ports ?n ! 0) = 0"
    "sizeOrigin (ports ?n ! 1) = 5" "portSize (ports ?n ! 1) = (128, 128)"
    by (simp_all add: example_defs)
  have two: "Suc 1 = 2" by simp
  from C6_connect_notifies_outport [OF h, of 1] obtain st' where
    "connect 2 0 2 exampleBeforeConnect = Some (True, st')"
    "events st' = [ProcSizeOriginChanged 0 0]" "sizeOrigin (ports st' ! 2) = 0"
    unfolding v two by auto
  then have b: "\<exists>st'. connect 2 0 2 exampleBeforeConnect = Some (True, st')
         \<and> events st' = [ProcSizeOriginChanged 0 0]
         \<and> sizeOrigin (ports st' ! 2) = 0"
    by blast
  from C6_connect_notifies_outport [OF h2, of 1] obtain st'' where
    "connect 2 0 1 ?n = Some (True, st'')"
    "events st'' = [ProcSizeOriginChanged 0 0, ProcPortResized 0 0 (128, 128)]"
    "sizeOrigin (ports st'' ! 1) = 5"
    unfolding v2 two by auto
  then have c: "\<exists>st'. connect 2 0 1 ?n = Some (True, st')
         \<and> events st' = [ProcSizeOriginChanged 0 0, ProcPortResized 0 0 (128, 128)]
         \<and> sizeOrigin (ports st' ! 1) = 5"
    by blast
  show ?thesis using a h b h2 c by blast
qed

text \<open>
  Claim C6 as stated fails in the direction of the propagation: the outport has the
  size origin 5 before and after it connects to an inport without size origin, and the
  inport is without size origin afterwards as well.
\<close>

lemma exampleBeforeConnect_run:
  "connect 2 0 2 exampleBeforeConnect =
     Some (True, exampleAfterConnect)"
  by (simp add: exampleBeforeConnect_def exampleAfterConnect_def connect_def Port_connect_def Port_testConnectivity_def
      addConnection_def isInport_def isConnected_def soc_enter_def soc_outport_def
      example_defs numeral_2_eq_2)

theorem C6_origin_direction_counterexample:
  "getSizeOrigin 2 (ports exampleBeforeConnect) 0 = Some 5
   \<and> sizeOrigin (ports exampleBeforeConnect ! 2) = 0
   \<and> connect 2 0 2 exampleBeforeConnect = Some (True, exampleAfterConnect)
   \<and> getSizeOrigin 2 (ports exampleAfterConnect) 0 = Some 5
   \<and> sizeOrigin (ports exampleAfterConnect ! 2) = 0"
  by (simp add: exampleBeforeConnect_run)
     (simp add: exampleBeforeConnect_def exampleAfterConnect_def example_defs numeral_2_eq_2)

end
